theory Spec2Isabelle
  imports Main
begin

section \<open>Go values shared by both packages\<close>

text \<open>
  A Go function either returns or panics. The only panic on the paths embedded here is
  \<^verbatim>\<open>(*http.Request).WithContext(nil)\<close>, reached by the v2 request builder.
  The receivers \<^verbatim>\<open>c\<close>, \<^verbatim>\<open>c.HTTPClient\<close> and the request pointer
  \<^verbatim>\<open>req\<close> are taken to be non-nil: the functions below receive the pointee.
\<close>

datatype 'a outcome = Panic string | Return 'a

text \<open>
  The \<^verbatim>\<open>error\<close> interface holds either a value made by \<^verbatim>\<open>fmt.Errorf\<close>
  (its message) or a pointer to a \<^verbatim>\<open>Response\<close> of the package at hand.
\<close>

datatype 'r go_error = Errorf string | ErrResponse 'r

text \<open>A \<^verbatim>\<open>context.Context\<close> is opaque; \<open>None\<close> is the nil interface.\<close>

type_synonym Context = nat

text \<open>
  \<^verbatim>\<open>time.Duration\<close> is an \<^verbatim>\<open>int64\<close> count of nanoseconds: an integer kept
  inside the signed 64-bit range by \<open>wrap64\<close>. Go's \<^verbatim>\<open>int\<close> is 64 bits wide on
  the 64-bit targets, so the conversion \<^verbatim>\<open>time.Duration(n)\<close> of an \<^verbatim>\<open>int\<close> is the
  identity there. \<open>go_quot\<close> and \<open>go_rem\<close> are Go's \<^verbatim>\<open>/\<close> and \<^verbatim>\<open>%\<close>, which
  truncate towards zero.

  A \<^verbatim>\<open>time.Time\<close> holds a count of seconds since the zero Time in an \<^verbatim>\<open>int64\<close> and
  a count of nanoseconds within the second. It is modelled by the one number of
  nanoseconds since the zero Time: \<open>t div 1000000000\<close> are its seconds and
  \<open>t mod 1000000000\<close> its nanoseconds. The monotonic clock reading and the location,
  which no function here reads, are left out. \<open>Time_Add\<close> follows
  \<^verbatim>\<open>time.Time.Add\<close>: it splits the duration into seconds and nanoseconds, carries
  the nanoseconds, and adds the seconds with \<open>addSec\<close>, which on overflow of the \<^verbatim>\<open>int64\<close>
  stops at the largest or smallest count of seconds instead of wrapping.
\<close>

type_synonym Time = int
type_synonym Duration = int

definition wrap64 :: "int \<Rightarrow> int" where
  "wrap64 x = (x + 9223372036854775808) mod 18446744073709551616 - 9223372036854775808"

definition time_Second :: Duration where
  "time_Second = 1000000000"

definition Duration_mul :: "Duration \<Rightarrow> Duration \<Rightarrow> Duration" where
  "Duration_mul a b = wrap64 (a * b)"

definition Time_zero :: Time where
  "Time_zero = 0"

definition Time_IsZero :: "Time \<Rightarrow> bool" where
  "Time_IsZero t = (t = 0)"

definition go_quot :: "int \<Rightarrow> int \<Rightarrow> int" where
  "go_quot a b = sgn a * sgn b * (abs a div abs b)"

definition go_rem :: "int \<Rightarrow> int \<Rightarrow> int" where
  "go_rem a b = a - b * go_quot a b"

definition addSec :: "int \<Rightarrow> int \<Rightarrow> int" where
  "addSec ext d =
     (let sum = wrap64 (ext + d) in
      if (sum > ext) = (d > 0) then sum
      else if d > 0 then 9223372036854775807
      else - 9223372036854775807)"

definition Time_Add :: "Time \<Rightarrow> Duration \<Rightarrow> Time" where
  "Time_Add t d =
     (let dsec = go_quot d 1000000000;
          nsec = t mod 1000000000 + go_rem d 1000000000;
          dsec' = (if nsec \<ge> 1000000000 then dsec + 1 else if nsec < 0 then dsec - 1 else dsec);
          nsec' = (if nsec \<ge> 1000000000 then nsec - 1000000000
                   else if nsec < 0 then nsec + 1000000000 else nsec)
      in addSec (t div 1000000000) dsec' * 1000000000 + nsec')"

text \<open>
  \<^verbatim>\<open>http.Request\<close> and \<^verbatim>\<open>http.Response\<close>, reduced to what the clients set and read.
\<close>

record http_Request =
  Method :: string
  URL :: string
  Header :: "string \<rightharpoonup> string"
  Body :: "string option"
  Ctx :: "Context option"

record http_Response =
  StatusCode :: int
  Body :: string

text \<open>
  The effects of a call on the outside world: the requests handed to
  \<^verbatim>\<open>HTTPClient.Do\<close> and the bodies handed to the JSON decoder, in order, and the
  wall clock: \<open>now\<close> is what \<^verbatim>\<open>time.Now()\<close> returns, which an operation calls at
  most once.
\<close>

datatype event = HTTPDo http_Request | JSONDecode string

record world =
  trace :: "event list"
  now :: Time

definition emit :: "event \<Rightarrow> world \<Rightarrow> world" where
  "emit e w = w\<lparr>trace := trace w @ [e]\<rparr>"

section \<open>Package ccu, API v2\<close>

definition apiURL :: string where
  "apiURL = ''https://api.ccu.akamai.com''"

text \<open>
  The transport \<^verbatim>\<open>HTTPClient\<close> answers a request with an error message or a reply.
  \<^verbatim>\<open>Logger\<close> is never read and is left out.
\<close>

record v2_Client =
  HTTPClient :: "http_Request \<Rightarrow> string + http_Response"
  Username :: string
  Password :: string

record v2_Response =
  SupportID :: string
  StatusCode :: int
  Title :: string
  Detail :: string
  DescribedBy :: string
  RawResponse :: string

definition v2_Response_zero :: v2_Response where
  "v2_Response_zero = \<lparr>v2_Response.SupportID = [], StatusCode = 0, Title = [], Detail = [],
     DescribedBy = [], RawResponse = []\<rparr>"

definition v2_Error :: "v2_Response \<Rightarrow> string" where
  "v2_Error e =
     (if v2_Response.Title e = [] then ''unknown''
      else if v2_Response.Detail e = [] then v2_Response.Title e
      else v2_Response.Title e @ '': '' @ v2_Response.Detail e)"

definition v2_assertError :: "v2_Response \<Rightarrow> v2_Response go_error option" where
  "v2_assertError r =
     (if v2_Response.StatusCode r < 200 \<or> v2_Response.StatusCode r > 299
      then Some (ErrResponse r) else None)"

record v2_QueueLengthResponse =
  Response :: v2_Response
  QueueLength :: int

record v2_PurgeRequest =
  Queue :: string
  Type :: string
  Action :: string
  Domain :: string
  Objects :: "string list"

record v2_PurgeResponse =
  Response :: v2_Response
  EstimatedSeconds :: int
  PurgeID :: string
  ProgressURI :: string
  PingAfterSeconds :: int
  Time :: Time

record v2_PurgeStatusResponse =
  Response :: v2_Response
  OriginalEstimatedSeconds :: int
  OriginalQueueLength :: int
  PurgeID :: string
  CompletionTime :: string
  SubmittedBy :: string
  PurgeStatus :: string
  SubmissionTime :: string

definition v2_QueueLengthResponse_zero :: v2_QueueLengthResponse where
  "v2_QueueLengthResponse_zero =
     \<lparr>v2_QueueLengthResponse.Response = v2_Response_zero, QueueLength = 0\<rparr>"

definition v2_PurgeResponse_zero :: v2_PurgeResponse where
  "v2_PurgeResponse_zero =
     \<lparr>v2_PurgeResponse.Response = v2_Response_zero, EstimatedSeconds = 0, PurgeID = [],
      ProgressURI = [], PingAfterSeconds = 0, Time = Time_zero\<rparr>"

definition v2_PurgeStatusResponse_zero :: v2_PurgeStatusResponse where
  "v2_PurgeStatusResponse_zero =
     \<lparr>v2_PurgeStatusResponse.Response = v2_Response_zero, OriginalEstimatedSeconds = 0,
      OriginalQueueLength = 0, PurgeID = [], CompletionTime = [], SubmittedBy = [],
      PurgeStatus = [], SubmissionTime = []\<rparr>"

text \<open>
  What the standard library does for the v2 package, as parameters: the JSON encoding of a
  \<^verbatim>\<open>PurgeRequest\<close> (an error message or the bytes), the error of
  \<^verbatim>\<open>http.NewRequest(method, url, body)\<close> if any, the base64 of
  \<^verbatim>\<open>SetBasicAuth\<close>, and \<^verbatim>\<open>Decode\<close> at each target type, which may write
  the target before it fails.
\<close>

record v2_ext =
  json_Encode :: "v2_PurgeRequest \<Rightarrow> string + string"
  http_NewRequest :: "string \<Rightarrow> string \<Rightarrow> string option \<Rightarrow> string option"
  base64 :: "string \<Rightarrow> string"
  Decode_QueueLengthResponse ::
    "string \<Rightarrow> v2_QueueLengthResponse \<Rightarrow> string option \<times> v2_QueueLengthResponse"
  Decode_PurgeResponse ::
    "string \<Rightarrow> v2_PurgeResponse \<Rightarrow> string option \<times> v2_PurgeResponse"
  Decode_PurgeStatusResponse ::
    "string \<Rightarrow> v2_PurgeStatusResponse \<Rightarrow> string option \<times> v2_PurgeStatusResponse"

definition v2_newHTTPRequest ::
  "v2_ext \<Rightarrow> v2_Client \<Rightarrow> string \<Rightarrow> string \<Rightarrow> v2_PurgeRequest option \<Rightarrow> Context option
     \<Rightarrow> (v2_Response go_error + http_Request) outcome" where
  "v2_newHTTPRequest ext c method url v ctx =
     (case (case v of None \<Rightarrow> Inr None
            | Some x \<Rightarrow> (case json_Encode ext x of Inl e \<Rightarrow> Inl e | Inr b \<Rightarrow> Inr (Some b))) of
        Inl e \<Rightarrow> Return (Inl (Errorf (''error encoding request as JSON: '' @ e)))
      | Inr body \<Rightarrow>
          (case http_NewRequest ext method url body of
             Some e \<Rightarrow> Return (Inl (Errorf (''error creating HTTP request: '' @ e)))
           | None \<Rightarrow>
               (let h0 = \<lparr>Method = method, URL = url, Header = Map.empty,
                          http_Request.Body = body, Ctx = None\<rparr>;
                    h1 = (if body \<noteq> None
                          then h0\<lparr>Header := (Header h0)(''Content-Type'' \<mapsto> ''application/json'')\<rparr>
                          else h0);
                    h2 = h1\<lparr>Header := (Header h1)(''Authorization'' \<mapsto>
                            ''Basic '' @ base64 ext (Username c @ '':'' @ Password c))\<rparr>
                in case ctx of
                     None \<Rightarrow> Panic ''net/http: nil Context''
                   | Some x \<Rightarrow> Return (Inr (h2\<lparr>Ctx := Some x\<rparr>)))))"

text \<open>
  \<^verbatim>\<open>do\<close> returns the Go pair (response, error), the target \<^verbatim>\<open>v\<close> as the decoder
  left it, and the world. \<open>dec\<close> is \<^verbatim>\<open>Decode\<close> at the dynamic type of \<^verbatim>\<open>v\<close>.
\<close>

definition v2_do ::
  "v2_Client \<Rightarrow> (string \<Rightarrow> 'v \<Rightarrow> string option \<times> 'v) \<Rightarrow> http_Request \<Rightarrow> 'v option \<Rightarrow> world
     \<Rightarrow> (http_Response option \<times> v2_Response go_error option) \<times> 'v option \<times> world" where
  "v2_do c dec req v w =
     (let w1 = emit (HTTPDo req) w in
      case HTTPClient c req of
        Inl e \<Rightarrow> ((None, Some (Errorf (''error sending HTTP request: '' @ e))), v, w1)
      | Inr resp \<Rightarrow>
          if http_Response.StatusCode resp = 401
          then ((None, Some (Errorf ''unauthorized'')), v, w1)
          else (case v of
                  None \<Rightarrow> ((Some resp, None), None, w1)
                | Some x \<Rightarrow>
                    (let w2 = emit (JSONDecode (http_Response.Body resp)) w1 in
                     case dec (http_Response.Body resp) x of
                       (Some e, x') \<Rightarrow>
                         ((None, Some (Errorf (''error decoding JSON response: '' @ e))),
                          Some x', w2)
                     | (None, x') \<Rightarrow> ((Some resp, None), Some x', w2))))"

text \<open>The caller's \<^verbatim>\<open>*v\<close> after \<^verbatim>\<open>do\<close> was given the pointer \<^verbatim>\<open>v\<close>.\<close>

definition deref :: "'v \<Rightarrow> 'v option \<Rightarrow> 'v" where
  "deref v0 v = (case v of None \<Rightarrow> v0 | Some x \<Rightarrow> x)"

definition v2_GetQueueLength ::
  "v2_ext \<Rightarrow> v2_Client \<Rightarrow> Context option \<Rightarrow> world
     \<Rightarrow> (v2_QueueLengthResponse option \<times> v2_Response go_error option) outcome \<times> world" where
  "v2_GetQueueLength ext c ctx w =
     (let url = apiURL @ ''/ccu/v2/queues/default'' in
      case v2_newHTTPRequest ext c ''GET'' url None ctx of
        Panic p \<Rightarrow> (Panic p, w)
      | Return (Inl err) \<Rightarrow> (Return (None, Some err), w)
      | Return (Inr hreq) \<Rightarrow>
          (case v2_do c (Decode_QueueLengthResponse ext) hreq (Some v2_QueueLengthResponse_zero) w of
             ((_, Some err), _, w') \<Rightarrow> (Return (None, Some err), w')
           | ((_, None), v', w') \<Rightarrow>
               (let v = deref v2_QueueLengthResponse_zero v' in
                case v2_assertError (v2_QueueLengthResponse.Response v) of
                  Some err \<Rightarrow> (Return (None, Some err), w')
                | None \<Rightarrow> (Return (Some v, None), w'))))"

definition NewPurgeRequest :: "string list \<Rightarrow> v2_PurgeRequest" where
  "NewPurgeRequest objects =
     \<lparr>Queue = [], Type = ''arl'', Action = ''remove'', Domain = ''production'',
      Objects = objects\<rparr>"

definition ETA :: "v2_PurgeResponse \<Rightarrow> Time" where
  "ETA p =
     (if Time_IsZero (Time p) then Time_zero
      else Time_Add (Time p) (Duration_mul time_Second (EstimatedSeconds p)))"

text \<open>
  \<^verbatim>\<open>Purge\<close> also returns the caller's request as it is after the call.
\<close>

definition v2_Purge ::
  "v2_ext \<Rightarrow> v2_Client \<Rightarrow> v2_PurgeRequest \<Rightarrow> Context option \<Rightarrow> world
     \<Rightarrow> (v2_PurgeResponse option \<times> v2_Response go_error option) outcome
        \<times> v2_PurgeRequest \<times> world" where
  "v2_Purge ext c req ctx w =
     (let q = (if Queue req = [] then ''default'' else Queue req);
          url = apiURL @ ''/ccu/v2/queues/'' @ q in
      case v2_newHTTPRequest ext c ''POST'' url (Some req) ctx of
        Panic p \<Rightarrow> (Panic p, req, w)
      | Return (Inl err) \<Rightarrow> (Return (None, Some err), req, w)
      | Return (Inr hreq) \<Rightarrow>
          (case v2_do c (Decode_PurgeResponse ext) hreq (Some v2_PurgeResponse_zero) w of
             ((_, Some err), _, w') \<Rightarrow> (Return (None, Some err), req, w')
           | ((_, None), v', w') \<Rightarrow>
               (let v = deref v2_PurgeResponse_zero v' in
                case v2_assertError (v2_PurgeResponse.Response v) of
                  Some err \<Rightarrow> (Return (None, Some err), req, w')
                | None \<Rightarrow> (Return (Some (v\<lparr>Time := now w'\<rparr>), None), req, w'))))"

definition IsDone :: "v2_PurgeStatusResponse \<Rightarrow> bool" where
  "IsDone p = (PurgeStatus p = ''Done'')"

definition v2_GetPurgeStatus ::
  "v2_ext \<Rightarrow> v2_Client \<Rightarrow> string \<Rightarrow> Context option \<Rightarrow> world
     \<Rightarrow> (v2_PurgeStatusResponse option \<times> v2_Response go_error option) outcome \<times> world" where
  "v2_GetPurgeStatus ext c purgeID ctx w =
     (let url = apiURL @ ''/ccu/v2/purges/'' @ purgeID in
      case v2_newHTTPRequest ext c ''GET'' url None ctx of
        Panic p \<Rightarrow> (Panic p, w)
      | Return (Inl err) \<Rightarrow> (Return (None, Some err), w)
      | Return (Inr hreq) \<Rightarrow>
          (case v2_do c (Decode_PurgeStatusResponse ext) hreq (Some v2_PurgeStatusResponse_zero) w of
             ((_, Some err), _, w') \<Rightarrow> (Return (None, Some err), w')
           | ((_, None), v', w') \<Rightarrow>
               (let v = deref v2_PurgeStatusResponse_zero v' in
                case v2_assertError (v2_PurgeStatusResponse.Response v) of
                  Some err \<Rightarrow> (Return (None, Some err), w')
                | None \<Rightarrow> (Return (Some v, None), w'))))"

section \<open>Package ccu, API v3\<close>

text \<open>An \<^verbatim>\<open>edgegrid.Config\<close> is opaque to the client.\<close>

datatype edgegrid_Config = EdgegridConfig string

record v3_Client =
  HTTPClient :: "http_Request \<Rightarrow> string + http_Response"
  Config :: "edgegrid_Config option"

record v3_Response =
  SupportID :: string
  StatusCode :: int
  Title :: string
  Detail :: string
  DescribedBy :: string

definition v3_Response_zero :: v3_Response where
  "v3_Response_zero = \<lparr>v3_Response.SupportID = [], StatusCode = 0, Title = [], Detail = [],
     DescribedBy = []\<rparr>"

definition v3_Error :: "v3_Response \<Rightarrow> string" where
  "v3_Error e =
     (if v3_Response.Title e = [] then ''unknown''
      else if v3_Response.Detail e = [] then v3_Response.Title e
      else v3_Response.Title e @ '': '' @ v3_Response.Detail e)"

definition v3_assertError :: "v3_Response \<Rightarrow> v3_Response go_error option" where
  "v3_assertError r =
     (if v3_Response.StatusCode r < 200 \<or> v3_Response.StatusCode r > 299
      then Some (ErrResponse r) else None)"

record v3_PurgeRequest =
  Type :: string
  Action :: string
  Network :: string
  Hostname :: string
  Objects :: "string list"

record v3_PurgeResponse =
  Response :: v3_Response
  EstimatedSeconds :: int
  PurgeID :: string

definition v3_PurgeResponse_zero :: v3_PurgeResponse where
  "v3_PurgeResponse_zero =
     \<lparr>v3_PurgeResponse.Response = v3_Response_zero, EstimatedSeconds = 0, PurgeID = []\<rparr>"

text \<open>
  What the edgegrid library and the standard library do for the v3 package, as
  parameters: \<^verbatim>\<open>edgegrid.Init(file, section)\<close>,
  \<^verbatim>\<open>client.NewJSONRequest(cfg, method, path, body)\<close>,
  \<^verbatim>\<open>edgegrid.AddRequestHeader(cfg, req)\<close> and \<^verbatim>\<open>Decode\<close> into a
  \<^verbatim>\<open>PurgeResponse\<close>.
\<close>

record v3_ext =
  edgegrid_Init :: "string \<Rightarrow> string \<Rightarrow> string + edgegrid_Config"
  client_NewJSONRequest ::
    "edgegrid_Config \<Rightarrow> string \<Rightarrow> string \<Rightarrow> v3_PurgeRequest option \<Rightarrow> string + http_Request"
  edgegrid_AddRequestHeader :: "edgegrid_Config \<Rightarrow> http_Request \<Rightarrow> http_Request"
  Decode_PurgeResponse ::
    "string \<Rightarrow> v3_PurgeResponse \<Rightarrow> string option \<times> v3_PurgeResponse"

text \<open>\<^verbatim>\<open>config\<close> caches the configuration on the client, which it returns updated.\<close>

definition config :: "v3_ext \<Rightarrow> v3_Client \<Rightarrow> (string + edgegrid_Config) \<times> v3_Client" where
  "config ext c =
     (case Config c of
        Some cfg \<Rightarrow> (Inr cfg, c)
      | None \<Rightarrow>
          (case edgegrid_Init ext [] [] of
             Inl e \<Rightarrow> (Inl e, c)
           | Inr cfg \<Rightarrow> (Inr cfg, c\<lparr>Config := Some cfg\<rparr>)))"

definition v3_newHTTPRequest ::
  "v3_ext \<Rightarrow> v3_Client \<Rightarrow> string \<Rightarrow> string \<Rightarrow> v3_PurgeRequest option \<Rightarrow> Context option
     \<Rightarrow> (v3_Response go_error + http_Request) \<times> v3_Client" where
  "v3_newHTTPRequest ext c method path v ctx =
     (case config ext c of
        (Inl e, c') \<Rightarrow> (Inl (Errorf (''error reading edgegrid configuration: '' @ e)), c')
      | (Inr cfg, c') \<Rightarrow>
          (case client_NewJSONRequest ext cfg method path v of
             Inl e \<Rightarrow> (Inl (Errorf (''error creating HTTP request: '' @ e)), c')
           | Inr h0 \<Rightarrow>
               (let h1 = edgegrid_AddRequestHeader ext cfg h0;
                    h2 = (case ctx of None \<Rightarrow> h1 | Some x \<Rightarrow> h1\<lparr>Ctx := Some x\<rparr>)
                in (Inr h2, c'))))"

definition v3_do ::
  "v3_Client \<Rightarrow> (string \<Rightarrow> 'v \<Rightarrow> string option \<times> 'v) \<Rightarrow> http_Request \<Rightarrow> 'v option \<Rightarrow> world
     \<Rightarrow> (http_Response option \<times> v3_Response go_error option) \<times> 'v option \<times> world" where
  "v3_do c dec req v w =
     (let w1 = emit (HTTPDo req) w in
      case v3_Client.HTTPClient c req of
        Inl e \<Rightarrow> ((None, Some (Errorf (''error sending HTTP request: '' @ e))), v, w1)
      | Inr resp \<Rightarrow>
          (case v of
             None \<Rightarrow> ((Some resp, None), None, w1)
           | Some x \<Rightarrow>
               (let w2 = emit (JSONDecode (http_Response.Body resp)) w1 in
                case dec (http_Response.Body resp) x of
                  (Some e, x') \<Rightarrow>
                    ((Some resp, Some (Errorf (''error decoding JSON response: '' @ e))),
                     Some x', w2)
                | (None, x') \<Rightarrow> ((Some resp, None), Some x', w2))))"

definition Path :: "v3_PurgeRequest \<Rightarrow> string" where
  "Path p = ''/ccu/v3/'' @ v3_PurgeRequest.Action p @ ''/'' @ v3_PurgeRequest.Type p
              @ ''/'' @ Network p"

text \<open>
  \<^verbatim>\<open>Purge\<close> writes through the request pointer and, by way of \<^verbatim>\<open>config\<close>,
  to the client: both are returned as they are after the call.
\<close>

definition v3_Purge ::
  "v3_ext \<Rightarrow> v3_Client \<Rightarrow> v3_PurgeRequest \<Rightarrow> Context option \<Rightarrow> world
     \<Rightarrow> (v3_PurgeResponse option \<times> v3_Response go_error option)
        \<times> v3_PurgeRequest \<times> v3_Client \<times> world" where
  "v3_Purge ext c req ctx w =
     (let r1 = (if v3_PurgeRequest.Action req = []
                then req\<lparr>v3_PurgeRequest.Action := ''invalidate''\<rparr> else req);
          r2 = (if Network r1 = [] then r1\<lparr>Network := ''production''\<rparr> else r1);
          r3 = (if v3_PurgeRequest.Type r2 = []
                then r2\<lparr>v3_PurgeRequest.Type := ''url''\<rparr> else r2)
      in case v3_newHTTPRequest ext c ''POST'' (Path r3) (Some r3) ctx of
           (Inl err, c') \<Rightarrow> ((None, Some err), r3, c', w)
         | (Inr hreq, c') \<Rightarrow>
             (case v3_do c' (v3_ext.Decode_PurgeResponse ext) hreq (Some v3_PurgeResponse_zero) w of
                ((_, Some err), _, w') \<Rightarrow> ((None, Some err), r3, c', w')
              | ((_, None), v', w') \<Rightarrow>
                  (let v = deref v3_PurgeResponse_zero v' in
                   case v3_assertError (v3_PurgeResponse.Response v) of
                     Some err \<Rightarrow> ((None, Some err), r3, c', w')
                   | None \<Rightarrow> ((Some v, None), r3, c', w'))))"

text \<open>
  The three assignments at the head of v3 \<^verbatim>\<open>Purge\<close>, as one function of the
  request: each field that is empty gets its default, in the order the code tests them.
\<close>

definition with_defaults :: "v3_PurgeRequest \<Rightarrow> v3_PurgeRequest" where
  "with_defaults req =
     (let r1 = (if v3_PurgeRequest.Action req = []
                then req\<lparr>v3_PurgeRequest.Action := ''invalidate''\<rparr> else req);
          r2 = (if Network r1 = [] then r1\<lparr>Network := ''production''\<rparr> else r1)
      in (if v3_PurgeRequest.Type r2 = []
          then r2\<lparr>v3_PurgeRequest.Type := ''url''\<rparr> else r2))"

section \<open>Reading a trace\<close>

fun sent :: "event list \<Rightarrow> http_Request list" where
  "sent [] = []"
| "sent (HTTPDo r # es) = r # sent es"
| "sent (JSONDecode b # es) = sent es"

fun decoded :: "event list \<Rightarrow> string list" where
  "decoded [] = []"
| "decoded (HTTPDo r # es) = decoded es"
| "decoded (JSONDecode b # es) = b # decoded es"

section \<open>A mock transport and mock collaborators\<close>

text \<open>
  Concrete collaborators on which the theorems below are instantiated. The mock decoders
  read the body as a status code out of a small table and fail on anything else; the mock
  encoder writes the classification fields and the objects, separated by slashes.
\<close>

definition mock_status :: "string \<Rightarrow> int option" where
  "mock_status = map_of [(''199'', 199), (''200'', 200), (''201'', 201), (''299'', 299),
     (''300'', 300), (''400'', 400)]"

definition mock_v2_ext :: v2_ext where
  "mock_v2_ext =
     \<lparr>json_Encode = (\<lambda>r. Inr (v2_PurgeRequest.Type r @ ''/'' @ v2_PurgeRequest.Action r @ ''/''
                              @ Domain r @ ''/'' @ concat (v2_PurgeRequest.Objects r))),
      http_NewRequest = (\<lambda>m u b. None),
      base64 = (\<lambda>s. s),
      Decode_QueueLengthResponse = (\<lambda>b v. case mock_status b of
          None \<Rightarrow> (Some ''invalid character'', v)
        | Some s \<Rightarrow> (None, v\<lparr>v2_QueueLengthResponse.Response :=
                              (v2_QueueLengthResponse.Response v)\<lparr>v2_Response.StatusCode := s\<rparr>,
                            QueueLength := 42\<rparr>)),
      Decode_PurgeResponse = (\<lambda>b v. case mock_status b of
          None \<Rightarrow> (Some ''invalid character'', v)
        | Some s \<Rightarrow> (None, v\<lparr>v2_PurgeResponse.Response :=
                              (v2_PurgeResponse.Response v)\<lparr>v2_Response.StatusCode := s\<rparr>,
                            v2_PurgeResponse.EstimatedSeconds := 300,
                            v2_PurgeResponse.PurgeID := ''abc''\<rparr>)),
      Decode_PurgeStatusResponse = (\<lambda>b v. case mock_status b of
          None \<Rightarrow> (Some ''invalid character'', v)
        | Some s \<Rightarrow> (None, v\<lparr>v2_PurgeStatusResponse.Response :=
                              (v2_PurgeStatusResponse.Response v)\<lparr>v2_Response.StatusCode := s\<rparr>,
                            PurgeStatus := ''Done''\<rparr>))\<rparr>"

definition mock_v2_Client :: "string + http_Response \<Rightarrow> v2_Client" where
  "mock_v2_Client reply =
     \<lparr>v2_Client.HTTPClient = (\<lambda>r. reply), Username = ''user'', Password = ''secret''\<rparr>"

definition mock_v3_ext :: v3_ext where
  "mock_v3_ext =
     \<lparr>edgegrid_Init = (\<lambda>f s. Inr (EdgegridConfig ''akab-host'')),
      client_NewJSONRequest = (\<lambda>cfg m p v.
          Inr \<lparr>Method = m,
               URL = (case cfg of EdgegridConfig h \<Rightarrow> ''https://'' @ h) @ p,
               Header = Map.empty,
               http_Request.Body = map_option (\<lambda>r. Hostname r @ ''/'' @ concat (v3_PurgeRequest.Objects r)) v,
               Ctx = None\<rparr>),
      edgegrid_AddRequestHeader = (\<lambda>cfg h. h),
      Decode_PurgeResponse = (\<lambda>b v. case mock_status b of
          None \<Rightarrow> (Some ''invalid character'', v)
        | Some s \<Rightarrow> (None, v\<lparr>v3_PurgeResponse.Response :=
                              (v3_PurgeResponse.Response v)\<lparr>v3_Response.StatusCode := s\<rparr>,
                            v3_PurgeResponse.EstimatedSeconds := 5,
                            v3_PurgeResponse.PurgeID := ''abc''\<rparr>))\<rparr>"

definition mock_v3_Client :: "string + http_Response \<Rightarrow> v3_Client" where
  "mock_v3_Client reply = \<lparr>v3_Client.HTTPClient = (\<lambda>r. reply), Config = None\<rparr>"

definition mock_world :: world where
  "mock_world = \<lparr>trace = [], now = 1700000000000000000\<rparr>"

definition mock_reply :: "int \<Rightarrow> string \<Rightarrow> string + http_Response" where
  "mock_reply code body = Inr \<lparr>http_Response.StatusCode = code, Body = body\<rparr>"

section \<open>Auxiliary facts\<close>

lemma sent_append: "sent (xs @ ys) = sent xs @ sent ys"
  by (induction xs rule: sent.induct) simp_all

lemma decoded_append: "decoded (xs @ ys) = decoded xs @ decoded ys"
  by (induction xs rule: decoded.induct) simp_all

lemma v2_assertError_range:
  "v2_assertError r =
     (if 200 \<le> v2_Response.StatusCode r \<and> v2_Response.StatusCode r \<le> 299 then None
      else Some (ErrResponse r))"
  by (simp add: v2_assertError_def not_le)

lemma v3_assertError_range:
  "v3_assertError r =
     (if 200 \<le> v3_Response.StatusCode r \<and> v3_Response.StatusCode r \<le> 299 then None
      else Some (ErrResponse r))"
  by (simp add: v3_assertError_def not_le)

lemma v2_do_401:
  "v2_Client.HTTPClient c hreq = Inr resp \<Longrightarrow> http_Response.StatusCode resp = 401 \<Longrightarrow>
   v2_do c dec hreq v w = ((None, Some (Errorf ''unauthorized'')), v, emit (HTTPDo hreq) w)"
  by (simp add: v2_do_def)

lemma v2_do_decoded:
  "v2_Client.HTTPClient c hreq = Inr resp \<Longrightarrow> http_Response.StatusCode resp \<noteq> 401 \<Longrightarrow>
   dec (http_Response.Body resp) x = (None, x') \<Longrightarrow>
   v2_do c dec hreq (Some x) w =
     ((Some resp, None), Some x', emit (JSONDecode (http_Response.Body resp)) (emit (HTTPDo hreq) w))"
  by (simp add: v2_do_def)

lemma v2_do_decode_fails:
  "v2_Client.HTTPClient c hreq = Inr resp \<Longrightarrow> http_Response.StatusCode resp \<noteq> 401 \<Longrightarrow>
   dec (http_Response.Body resp) x = (Some e, x') \<Longrightarrow>
   v2_do c dec hreq (Some x) w =
     ((None, Some (Errorf (''error decoding JSON response: '' @ e))), Some x',
      emit (JSONDecode (http_Response.Body resp)) (emit (HTTPDo hreq) w))"
  by (simp add: v2_do_def)

lemma v3_do_decoded:
  "v3_Client.HTTPClient c hreq = Inr resp \<Longrightarrow>
   dec (http_Response.Body resp) x = (None, x') \<Longrightarrow>
   v3_do c dec hreq (Some x) w =
     ((Some resp, None), Some x', emit (JSONDecode (http_Response.Body resp)) (emit (HTTPDo hreq) w))"
  by (simp add: v3_do_def)

lemma v3_do_decode_fails:
  "v3_Client.HTTPClient c hreq = Inr resp \<Longrightarrow>
   dec (http_Response.Body resp) x = (Some e, x') \<Longrightarrow>
   v3_do c dec hreq (Some x) w =
     ((Some resp, Some (Errorf (''error decoding JSON response: '' @ e))), Some x',
      emit (JSONDecode (http_Response.Body resp)) (emit (HTTPDo hreq) w))"
  by (simp add: v3_do_def)

lemma v2_GetQueueLength_decoded:
  "v2_newHTTPRequest ext c ''GET'' (apiURL @ ''/ccu/v2/queues/default'') None ctx = Return (Inr hq) \<Longrightarrow>
   v2_do c (Decode_QueueLengthResponse ext) hq (Some v2_QueueLengthResponse_zero) w
     = ((hr, None), Some vq, w') \<Longrightarrow>
   v2_GetQueueLength ext c ctx w =
     (Return (if 200 \<le> v2_Response.StatusCode (v2_QueueLengthResponse.Response vq)
                 \<and> v2_Response.StatusCode (v2_QueueLengthResponse.Response vq) \<le> 299
              then (Some vq, None)
              else (None, Some (ErrResponse (v2_QueueLengthResponse.Response vq)))), w')"
  by (simp add: v2_GetQueueLength_def v2_assertError_range deref_def)

lemma v2_Purge_decoded:
  "v2_newHTTPRequest ext c ''POST''
      (apiURL @ ''/ccu/v2/queues/'' @ (if Queue req = [] then ''default'' else Queue req))
      (Some req) ctx = Return (Inr hp) \<Longrightarrow>
   v2_do c (v2_ext.Decode_PurgeResponse ext) hp (Some v2_PurgeResponse_zero) w
     = ((hr, None), Some vp, w') \<Longrightarrow>
   v2_Purge ext c req ctx w =
     (Return (if 200 \<le> v2_Response.StatusCode (v2_PurgeResponse.Response vp)
                 \<and> v2_Response.StatusCode (v2_PurgeResponse.Response vp) \<le> 299
              then (Some (vp\<lparr>Time := now w'\<rparr>), None)
              else (None, Some (ErrResponse (v2_PurgeResponse.Response vp)))), req, w')"
  by (simp add: v2_Purge_def v2_assertError_range deref_def)

lemma v2_GetPurgeStatus_decoded:
  "v2_newHTTPRequest ext c ''GET'' (apiURL @ ''/ccu/v2/purges/'' @ purgeID) None ctx = Return (Inr hs) \<Longrightarrow>
   v2_do c (Decode_PurgeStatusResponse ext) hs (Some v2_PurgeStatusResponse_zero) w
     = ((hr, None), Some vs, w') \<Longrightarrow>
   v2_GetPurgeStatus ext c purgeID ctx w =
     (Return (if 200 \<le> v2_Response.StatusCode (v2_PurgeStatusResponse.Response vs)
                 \<and> v2_Response.StatusCode (v2_PurgeStatusResponse.Response vs) \<le> 299
              then (Some vs, None)
              else (None, Some (ErrResponse (v2_PurgeStatusResponse.Response vs)))), w')"
  by (simp add: v2_GetPurgeStatus_def v2_assertError_range deref_def)

lemma v3_Purge_unfold:
  "v3_Purge ext c req ctx w =
     (case v3_newHTTPRequest ext c ''POST'' (Path (with_defaults req)) (Some (with_defaults req)) ctx of
        (Inl err, c') \<Rightarrow> ((None, Some err), with_defaults req, c', w)
      | (Inr hreq, c') \<Rightarrow>
          (case v3_do c' (v3_ext.Decode_PurgeResponse ext) hreq (Some v3_PurgeResponse_zero) w of
             ((_, Some err), _, w') \<Rightarrow> ((None, Some err), with_defaults req, c', w')
           | ((_, None), v', w') \<Rightarrow>
               (let v = deref v3_PurgeResponse_zero v' in
                case v3_assertError (v3_PurgeResponse.Response v) of
                  Some err \<Rightarrow> ((None, Some err), with_defaults req, c', w')
                | None \<Rightarrow> ((Some v, None), with_defaults req, c', w'))))"
  unfolding with_defaults_def v3_Purge_def Let_def ..

lemma v3_Purge_decoded:
  "v3_newHTTPRequest ext c ''POST'' (Path (with_defaults req)) (Some (with_defaults req)) ctx
     = (Inr h, c') \<Longrightarrow>
   v3_do c' (v3_ext.Decode_PurgeResponse ext) h (Some v3_PurgeResponse_zero) w
     = ((hr, None), Some v, w') \<Longrightarrow>
   v3_Purge ext c req ctx w =
     ((if 200 \<le> v3_Response.StatusCode (v3_PurgeResponse.Response v)
          \<and> v3_Response.StatusCode (v3_PurgeResponse.Response v) \<le> 299
       then (Some v, None)
       else (None, Some (ErrResponse (v3_PurgeResponse.Response v)))),
      with_defaults req, c', w')"
  by (simp add: v3_Purge_unfold v3_assertError_range deref_def)

lemma with_defaults_fields:
  "with_defaults req =
     req\<lparr>v3_PurgeRequest.Action :=
           (if v3_PurgeRequest.Action req = [] then ''invalidate'' else v3_PurgeRequest.Action req),
         Network := (if Network req = [] then ''production'' else Network req),
         v3_PurgeRequest.Type :=
           (if v3_PurgeRequest.Type req = [] then ''url'' else v3_PurgeRequest.Type req)\<rparr>"
  by (cases req) (simp add: with_defaults_def Let_def)

lemma v2_GetQueueLength_reply:
  "v2_newHTTPRequest ext c ''GET'' (apiURL @ ''/ccu/v2/queues/default'') None ctx = Return (Inr hq) \<Longrightarrow>
   v2_Client.HTTPClient c hq = Inr resp \<Longrightarrow> http_Response.StatusCode resp \<noteq> 401 \<Longrightarrow>
   Decode_QueueLengthResponse ext (http_Response.Body resp) v2_QueueLengthResponse_zero = (None, vq) \<Longrightarrow>
   v2_GetQueueLength ext c ctx w =
     (Return (if 200 \<le> v2_Response.StatusCode (v2_QueueLengthResponse.Response vq)
                 \<and> v2_Response.StatusCode (v2_QueueLengthResponse.Response vq) \<le> 299
              then (Some vq, None)
              else (None, Some (ErrResponse (v2_QueueLengthResponse.Response vq)))),
      emit (JSONDecode (http_Response.Body resp)) (emit (HTTPDo hq) w))"
  by (rule v2_GetQueueLength_decoded, assumption, rule v2_do_decoded)

lemma v2_Purge_reply:
  "v2_newHTTPRequest ext c ''POST''
      (apiURL @ ''/ccu/v2/queues/'' @ (if Queue req = [] then ''default'' else Queue req))
      (Some req) ctx = Return (Inr hp) \<Longrightarrow>
   v2_Client.HTTPClient c hp = Inr resp \<Longrightarrow> http_Response.StatusCode resp \<noteq> 401 \<Longrightarrow>
   v2_ext.Decode_PurgeResponse ext (http_Response.Body resp) v2_PurgeResponse_zero = (None, vp) \<Longrightarrow>
   v2_Purge ext c req ctx w =
     (Return (if 200 \<le> v2_Response.StatusCode (v2_PurgeResponse.Response vp)
                 \<and> v2_Response.StatusCode (v2_PurgeResponse.Response vp) \<le> 299
              then (Some (vp\<lparr>Time := now w\<rparr>), None)
              else (None, Some (ErrResponse (v2_PurgeResponse.Response vp)))), req,
      emit (JSONDecode (http_Response.Body resp)) (emit (HTTPDo hp) w))"
  using v2_Purge_decoded [where w' = "emit (JSONDecode (http_Response.Body resp)) (emit (HTTPDo hp) w)"
      and w = w and hr = "Some resp" and vp = vp and hp = hp and ext = ext and c = c and req = req
      and ctx = ctx]
    v2_do_decoded [of c hp resp "v2_ext.Decode_PurgeResponse ext" v2_PurgeResponse_zero vp w]
  by (simp add: emit_def)

lemma v2_GetPurgeStatus_reply:
  "v2_newHTTPRequest ext c ''GET'' (apiURL @ ''/ccu/v2/purges/'' @ purgeID) None ctx = Return (Inr hs) \<Longrightarrow>
   v2_Client.HTTPClient c hs = Inr resp \<Longrightarrow> http_Response.StatusCode resp \<noteq> 401 \<Longrightarrow>
   Decode_PurgeStatusResponse ext (http_Response.Body resp) v2_PurgeStatusResponse_zero = (None, vs) \<Longrightarrow>
   v2_GetPurgeStatus ext c purgeID ctx w =
     (Return (if 200 \<le> v2_Response.StatusCode (v2_PurgeStatusResponse.Response vs)
                 \<and> v2_Response.StatusCode (v2_PurgeStatusResponse.Response vs) \<le> 299
              then (Some vs, None)
              else (None, Some (ErrResponse (v2_PurgeStatusResponse.Response vs)))),
      emit (JSONDecode (http_Response.Body resp)) (emit (HTTPDo hs) w))"
  by (rule v2_GetPurgeStatus_decoded, assumption, rule v2_do_decoded)

lemma v3_Purge_reply:
  "v3_newHTTPRequest ext c ''POST'' (Path (with_defaults req)) (Some (with_defaults req)) ctx
     = (Inr h, c') \<Longrightarrow>
   v3_Client.HTTPClient c' h = Inr resp \<Longrightarrow>
   v3_ext.Decode_PurgeResponse ext (http_Response.Body resp) v3_PurgeResponse_zero = (None, v) \<Longrightarrow>
   v3_Purge ext c req ctx w =
     ((if 200 \<le> v3_Response.StatusCode (v3_PurgeResponse.Response v)
          \<and> v3_Response.StatusCode (v3_PurgeResponse.Response v) \<le> 299
       then (Some v, None)
       else (None, Some (ErrResponse (v3_PurgeResponse.Response v)))),
      with_defaults req, c', emit (JSONDecode (http_Response.Body resp)) (emit (HTTPDo h) w))"
  by (rule v3_Purge_decoded, assumption, rule v3_do_decoded)

lemma mock_v2_request:
  "\<exists>h. v2_newHTTPRequest mock_v2_ext (mock_v2_Client reply) m u v (Some x) = Return (Inr h)"
  by (simp add: v2_newHTTPRequest_def mock_v2_ext_def Let_def split: option.splits)

lemma mock_v3_request:
  "\<exists>h. v3_newHTTPRequest mock_v3_ext (mock_v3_Client reply) m p v ctx =
     (Inr h, (mock_v3_Client reply)\<lparr>Config := Some (EdgegridConfig ''akab-host'')\<rparr>)"
  by (simp add: v3_newHTTPRequest_def config_def mock_v3_ext_def mock_v3_Client_def Let_def
      split: option.splits)

lemma mock_v2_transport:
  "v2_Client.HTTPClient (mock_v2_Client (mock_reply code body)) h =
     Inr \<lparr>http_Response.StatusCode = code, Body = body\<rparr>"
  by (simp add: mock_v2_Client_def mock_reply_def)

lemma mock_v3_transport:
  "v3_Client.HTTPClient (mock_v3_Client (mock_reply code body)) h =
     Inr \<lparr>http_Response.StatusCode = code, Body = body\<rparr>"
  by (simp add: mock_v3_Client_def mock_reply_def)

lemma v2_GetQueueLength_401:
  "v2_newHTTPRequest ext c ''GET'' (apiURL @ ''/ccu/v2/queues/default'') None ctx = Return (Inr h) \<Longrightarrow>
   v2_Client.HTTPClient c h = Inr resp \<Longrightarrow> http_Response.StatusCode resp = 401 \<Longrightarrow>
   v2_GetQueueLength ext c ctx w =
     (Return (None, Some (Errorf ''unauthorized'')), w\<lparr>trace := trace w @ [HTTPDo h]\<rparr>)"
  by (simp add: v2_GetQueueLength_def v2_do_401 emit_def)

lemma v2_Purge_401:
  "v2_newHTTPRequest ext c ''POST''
      (apiURL @ ''/ccu/v2/queues/'' @ (if Queue req = [] then ''default'' else Queue req))
      (Some req) ctx = Return (Inr h) \<Longrightarrow>
   v2_Client.HTTPClient c h = Inr resp \<Longrightarrow> http_Response.StatusCode resp = 401 \<Longrightarrow>
   v2_Purge ext c req ctx w =
     (Return (None, Some (Errorf ''unauthorized'')), req, w\<lparr>trace := trace w @ [HTTPDo h]\<rparr>)"
  by (simp add: v2_Purge_def v2_do_401 emit_def)

lemma v2_GetPurgeStatus_401:
  "v2_newHTTPRequest ext c ''GET'' (apiURL @ ''/ccu/v2/purges/'' @ purgeID) None ctx = Return (Inr h) \<Longrightarrow>
   v2_Client.HTTPClient c h = Inr resp \<Longrightarrow> http_Response.StatusCode resp = 401 \<Longrightarrow>
   v2_GetPurgeStatus ext c purgeID ctx w =
     (Return (None, Some (Errorf ''unauthorized'')), w\<lparr>trace := trace w @ [HTTPDo h]\<rparr>)"
  by (simp add: v2_GetPurgeStatus_def v2_do_401 emit_def)

lemma wrap64_id: "- 9223372036854775808 \<le> x \<Longrightarrow> x < 9223372036854775808 \<Longrightarrow> wrap64 x = x"
  by (simp add: wrap64_def)

lemma go_quot_seconds: "go_quot (1000000000 * s) 1000000000 = s"
  by (simp add: go_quot_def abs_mult sgn_mult sgn_mult_abs)

lemma go_rem_seconds: "go_rem (1000000000 * s) 1000000000 = 0"
  by (simp add: go_rem_def go_quot_seconds)

lemma addSec_in_range:
  "- 9223372036854775807 \<le> ext + d \<Longrightarrow> ext + d \<le> 9223372036854775807 \<Longrightarrow> addSec ext d = ext + d"
  by (simp add: addSec_def Let_def wrap64_id)

lemma Time_Add_seconds:
  "- 9223372036854775807 \<le> t div 1000000000 + s \<Longrightarrow>
   t div 1000000000 + s \<le> 9223372036854775807 \<Longrightarrow>
   Time_Add t (1000000000 * s) = t + s * 1000000000"
proof -
  assume r: "- 9223372036854775807 \<le> t div 1000000000 + s"
    "t div 1000000000 + s \<le> 9223372036854775807"
  have n: "0 \<le> t mod 1000000000" "t mod 1000000000 < 1000000000"
    by simp_all
  have "Time_Add t (1000000000 * s) = (t div 1000000000 + s) * 1000000000 + t mod 1000000000"
    using n by (simp add: Time_Add_def Let_def go_quot_seconds go_rem_seconds addSec_in_range [OF r]
        del: pos_mod_sign pos_mod_bound)
  also have "\<dots> = t + s * 1000000000"
    using div_mult_mod_eq [of t 1000000000] by (simp add: algebra_simps)
  finally show ?thesis .
qed

lemma v2_Purge_success_Time:
  "v2_Purge ext c req ctx w = (Return (Some v, e), req', w') \<Longrightarrow> Time v = now w' \<and> e = None"
  by (auto simp add: v2_Purge_def Let_def
      split: outcome.splits sum.splits prod.splits option.splits)

lemma v2_Purge_failure_no_response:
  "v2_Purge ext c req ctx w = (Return (r, Some e), req', w') \<Longrightarrow> r = None"
  by (auto simp add: v2_Purge_def Let_def
      split: outcome.splits sum.splits prod.splits option.splits)

lemma v2_GetQueueLength_exclusive:
  "v2_GetQueueLength ext c ctx w = (Return (r, e), w') \<Longrightarrow> (r = None) \<noteq> (e = None)"
  by (auto simp add: v2_GetQueueLength_def Let_def
      split: outcome.splits sum.splits prod.splits option.splits; metis)

lemma v2_Purge_exclusive:
  "v2_Purge ext c req ctx w = (Return (r, e), req', w') \<Longrightarrow> (r = None) \<noteq> (e = None)"
  by (auto simp add: v2_Purge_def Let_def
      split: outcome.splits sum.splits prod.splits option.splits; metis)

lemma v2_GetPurgeStatus_exclusive:
  "v2_GetPurgeStatus ext c purgeID ctx w = (Return (r, e), w') \<Longrightarrow> (r = None) \<noteq> (e = None)"
  by (auto simp add: v2_GetPurgeStatus_def Let_def
      split: outcome.splits sum.splits prod.splits option.splits; metis)

lemma v3_Purge_exclusive:
  "v3_Purge ext c req ctx w = ((r, e), req', c', w') \<Longrightarrow> (r = None) \<noteq> (e = None)"
  by (auto simp add: v3_Purge_unfold Let_def
      split: sum.splits prod.splits option.splits; metis)

lemma v3_Purge_decode_fails:
  "v3_newHTTPRequest ext c ''POST'' (Path (with_defaults req)) (Some (with_defaults req)) ctx
     = (Inr h, c') \<Longrightarrow>
   v3_Client.HTTPClient c' h = Inr resp \<Longrightarrow>
   v3_ext.Decode_PurgeResponse ext (http_Response.Body resp) v3_PurgeResponse_zero = (Some e, x') \<Longrightarrow>
   fst (v3_Purge ext c req ctx w) = (None, Some (Errorf (''error decoding JSON response: '' @ e)))"
  by (simp add: v3_Purge_unfold v3_do_decode_fails)

lemma v2_do_sent:
  "sent (trace (snd (snd (v2_do c dec h v w)))) = sent (trace w) @ [h]"
  by (simp add: v2_do_def Let_def emit_def sent_append split: sum.splits option.splits prod.splits)

lemma v3_do_sent:
  "sent (trace (snd (snd (v3_do c dec h v w)))) = sent (trace w) @ [h]"
  by (simp add: v3_do_def Let_def emit_def sent_append split: sum.splits option.splits prod.splits)

lemma v2_Purge_request_unchanged:
  "fst (snd (v2_Purge ext c req ctx w)) = req"
  by (simp add: v2_Purge_def Let_def split: outcome.splits sum.splits prod.splits option.splits)

lemma v2_Purge_world:
  "v2_newHTTPRequest ext c ''POST''
      (apiURL @ ''/ccu/v2/queues/'' @ (if Queue req = [] then ''default'' else Queue req))
      (Some req) ctx = Return (Inr h) \<Longrightarrow>
   snd (snd (v2_Purge ext c req ctx w)) =
     snd (snd (v2_do c (v2_ext.Decode_PurgeResponse ext) h (Some v2_PurgeResponse_zero) w))"
  by (simp add: v2_Purge_def Let_def split: prod.splits option.splits)

lemma v3_Purge_request:
  "fst (snd (v3_Purge ext c req ctx w)) = with_defaults req"
  by (simp add: v3_Purge_unfold Let_def split: sum.splits prod.splits option.splits)

lemma v3_Purge_world:
  "v3_newHTTPRequest ext c ''POST'' (Path (with_defaults req)) (Some (with_defaults req)) ctx
     = (Inr h, c') \<Longrightarrow>
   snd (snd (snd (v3_Purge ext c req ctx w))) =
     snd (snd (v3_do c' (v3_ext.Decode_PurgeResponse ext) h (Some v3_PurgeResponse_zero) w))"
  by (simp add: v3_Purge_unfold Let_def split: prod.splits option.splits)

lemma Path_with_defaults:
  "Path (with_defaults req) =
     ''/ccu/v3/'' @ (if v3_PurgeRequest.Action req = [] then ''invalidate'' else v3_PurgeRequest.Action req)
       @ ''/'' @ (if v3_PurgeRequest.Type req = [] then ''url'' else v3_PurgeRequest.Type req)
       @ ''/'' @ (if Network req = [] then ''production'' else Network req)"
  by (simp add: with_defaults_fields Path_def)

section \<open>The claims\<close>

text \<open>
  C5. In both packages \<^verbatim>\<open>Response.Error()\<close> is \<open>unknown\<close> when the title is empty,
  whatever the detail; the title alone when the title is not empty and the detail is; and
  the title, a colon and a space, and the detail when neither is empty.
\<close>

theorem Error_format:
  "(v2_Response.Title r = [] \<longrightarrow> v2_Error r = ''unknown'')
   \<and> (v2_Response.Title r \<noteq> [] \<and> v2_Response.Detail r = [] \<longrightarrow> v2_Error r = v2_Response.Title r)
   \<and> (v2_Response.Title r \<noteq> [] \<and> v2_Response.Detail r \<noteq> []
        \<longrightarrow> v2_Error r = v2_Response.Title r @ '': '' @ v2_Response.Detail r)
   \<and> (v3_Response.Title r' = [] \<longrightarrow> v3_Error r' = ''unknown'')
   \<and> (v3_Response.Title r' \<noteq> [] \<and> v3_Response.Detail r' = [] \<longrightarrow> v3_Error r' = v3_Response.Title r')
   \<and> (v3_Response.Title r' \<noteq> [] \<and> v3_Response.Detail r' \<noteq> []
        \<longrightarrow> v3_Error r' = v3_Response.Title r' @ '': '' @ v3_Response.Detail r')"
  by (simp add: v2_Error_def v3_Error_def)

theorem Error_format_witness:
  "v2_Error (v2_Response_zero\<lparr>v2_Response.Detail := ''Y''\<rparr>) = ''unknown''
   \<and> v2_Error (v2_Response_zero\<lparr>v2_Response.Title := ''X''\<rparr>) = ''X''
   \<and> v2_Error (v2_Response_zero\<lparr>v2_Response.Title := ''Bad Request'',
         v2_Response.Detail := ''missing objects''\<rparr>) = ''Bad Request: missing objects''
   \<and> v3_Error (v3_Response_zero\<lparr>v3_Response.Detail := ''Y''\<rparr>) = ''unknown''
   \<and> v3_Error (v3_Response_zero\<lparr>v3_Response.Title := ''X''\<rparr>) = ''X''
   \<and> v3_Error (v3_Response_zero\<lparr>v3_Response.Title := ''X'', v3_Response.Detail := ''Y''\<rparr>) = ''X: Y''"
  using
    Error_format [of "v2_Response_zero\<lparr>v2_Response.Detail := ''Y''\<rparr>"
                     "v3_Response_zero\<lparr>v3_Response.Detail := ''Y''\<rparr>"]
    Error_format [of "v2_Response_zero\<lparr>v2_Response.Title := ''X''\<rparr>"
                     "v3_Response_zero\<lparr>v3_Response.Title := ''X''\<rparr>"]
    Error_format [of "v2_Response_zero\<lparr>v2_Response.Title := ''Bad Request'',
                        v2_Response.Detail := ''missing objects''\<rparr>"
                     "v3_Response_zero\<lparr>v3_Response.Title := ''X'', v3_Response.Detail := ''Y''\<rparr>"]
  by (simp add: v2_Response_zero_def v3_Response_zero_def)

text \<open>
  C9. \<^verbatim>\<open>IsDone()\<close> holds exactly when \<^verbatim>\<open>PurgeStatus\<close> is the four characters
  \<open>D\<close>, \<open>o\<close>, \<open>n\<close>, \<open>e\<close>; it is false for the empty string, for \<open>Pending\<close> and
  for the lower-case \<open>done\<close>.
\<close>

theorem IsDone_exact:
  "(IsDone p \<longleftrightarrow> PurgeStatus p = [CHR ''D'', CHR ''o'', CHR ''n'', CHR ''e''])
   \<and> \<not> IsDone (p\<lparr>PurgeStatus := []\<rparr>)
   \<and> \<not> IsDone (p\<lparr>PurgeStatus := ''Pending''\<rparr>)
   \<and> \<not> IsDone (p\<lparr>PurgeStatus := ''done''\<rparr>)"
  by (simp add: IsDone_def)

theorem IsDone_exact_witness:
  "IsDone (v2_PurgeStatusResponse_zero\<lparr>PurgeStatus := ''Done''\<rparr>)
   \<and> \<not> IsDone (v2_PurgeStatusResponse_zero\<lparr>PurgeStatus := ''done''\<rparr>)"
  using IsDone_exact [of "v2_PurgeStatusResponse_zero\<lparr>PurgeStatus := ''Done''\<rparr>"]
  by simp

text \<open>
  C1. \<^verbatim>\<open>assertError\<close> of either package returns nothing exactly when the status code
  lies in 200..299 and otherwise returns the Response it was called on, so at 199 and 300
  but not at 200 and 299. In each of the four operations, once the request is built, the
  transport has replied (for v2 with a status other than 401) and the body has been decoded
  into a value, the operation returns that value and no error exactly when the status code
  of its embedded Response lies in 200..299, and otherwise returns no value and that
  embedded Response as the error. The value v2 \<^verbatim>\<open>Purge\<close> returns carries the clock
  reading in \<^verbatim>\<open>Time\<close>, a field the decoder does not fill.
\<close>

theorem status_classification:
  "(v2_assertError r = None \<longleftrightarrow> 200 \<le> v2_Response.StatusCode r \<and> v2_Response.StatusCode r \<le> 299)
   \<and> (v2_assertError r \<noteq> None \<longrightarrow> v2_assertError r = Some (ErrResponse r))
   \<and> (v2_Response.StatusCode r \<in> {199, 300} \<longrightarrow> v2_assertError r = Some (ErrResponse r))
   \<and> (v2_Response.StatusCode r \<in> {200, 299} \<longrightarrow> v2_assertError r = None)
   \<and> (v3_assertError r' = None \<longleftrightarrow> 200 \<le> v3_Response.StatusCode r' \<and> v3_Response.StatusCode r' \<le> 299)
   \<and> (v3_assertError r' \<noteq> None \<longrightarrow> v3_assertError r' = Some (ErrResponse r'))
   \<and> (v3_Response.StatusCode r' \<in> {199, 300} \<longrightarrow> v3_assertError r' = Some (ErrResponse r'))
   \<and> (v3_Response.StatusCode r' \<in> {200, 299} \<longrightarrow> v3_assertError r' = None)
   \<and> (v2_newHTTPRequest ext c ''GET'' (apiURL @ ''/ccu/v2/queues/default'') None ctx = Return (Inr hq)
        \<and> v2_Client.HTTPClient c hq = Inr resp \<and> http_Response.StatusCode resp \<noteq> 401
        \<and> Decode_QueueLengthResponse ext (http_Response.Body resp) v2_QueueLengthResponse_zero = (None, vq)
        \<longrightarrow> v2_GetQueueLength ext c ctx w =
             (Return (if 200 \<le> v2_Response.StatusCode (v2_QueueLengthResponse.Response vq)
                         \<and> v2_Response.StatusCode (v2_QueueLengthResponse.Response vq) \<le> 299
                      then (Some vq, None)
                      else (None, Some (ErrResponse (v2_QueueLengthResponse.Response vq)))),
              emit (JSONDecode (http_Response.Body resp)) (emit (HTTPDo hq) w)))
   \<and> (v2_newHTTPRequest ext c ''POST''
          (apiURL @ ''/ccu/v2/queues/'' @ (if Queue req = [] then ''default'' else Queue req))
          (Some req) ctx = Return (Inr hp)
        \<and> v2_Client.HTTPClient c hp = Inr resp \<and> http_Response.StatusCode resp \<noteq> 401
        \<and> v2_ext.Decode_PurgeResponse ext (http_Response.Body resp) v2_PurgeResponse_zero = (None, vp)
        \<longrightarrow> v2_Purge ext c req ctx w =
             (Return (if 200 \<le> v2_Response.StatusCode (v2_PurgeResponse.Response vp)
                         \<and> v2_Response.StatusCode (v2_PurgeResponse.Response vp) \<le> 299
                      then (Some (vp\<lparr>Time := now w\<rparr>), None)
                      else (None, Some (ErrResponse (v2_PurgeResponse.Response vp)))), req,
              emit (JSONDecode (http_Response.Body resp)) (emit (HTTPDo hp) w)))
   \<and> (v2_newHTTPRequest ext c ''GET'' (apiURL @ ''/ccu/v2/purges/'' @ purgeID) None ctx = Return (Inr hs)
        \<and> v2_Client.HTTPClient c hs = Inr resp \<and> http_Response.StatusCode resp \<noteq> 401
        \<and> Decode_PurgeStatusResponse ext (http_Response.Body resp) v2_PurgeStatusResponse_zero = (None, vs)
        \<longrightarrow> v2_GetPurgeStatus ext c purgeID ctx w =
             (Return (if 200 \<le> v2_Response.StatusCode (v2_PurgeStatusResponse.Response vs)
                         \<and> v2_Response.StatusCode (v2_PurgeStatusResponse.Response vs) \<le> 299
                      then (Some vs, None)
                      else (None, Some (ErrResponse (v2_PurgeStatusResponse.Response vs)))),
              emit (JSONDecode (http_Response.Body resp)) (emit (HTTPDo hs) w)))
   \<and> (v3_newHTTPRequest ext3 c3 ''POST'' (Path (with_defaults req3)) (Some (with_defaults req3)) ctx
          = (Inr h3, c3')
        \<and> v3_Client.HTTPClient c3' h3 = Inr resp
        \<and> v3_ext.Decode_PurgeResponse ext3 (http_Response.Body resp) v3_PurgeResponse_zero = (None, v3)
        \<longrightarrow> v3_Purge ext3 c3 req3 ctx w =
             ((if 200 \<le> v3_Response.StatusCode (v3_PurgeResponse.Response v3)
                  \<and> v3_Response.StatusCode (v3_PurgeResponse.Response v3) \<le> 299
               then (Some v3, None)
               else (None, Some (ErrResponse (v3_PurgeResponse.Response v3)))),
              with_defaults req3, c3', emit (JSONDecode (http_Response.Body resp)) (emit (HTTPDo h3) w)))"
proof (intro conjI impI; (elim conjE)?)
  show "v2_assertError r = None \<longleftrightarrow> 200 \<le> v2_Response.StatusCode r \<and> v2_Response.StatusCode r \<le> 299"
    by (simp add: v2_assertError_range)
  show "v2_assertError r = Some (ErrResponse r)" if "v2_assertError r \<noteq> None"
    using that by (simp add: v2_assertError_range split: if_splits)
  show "v2_assertError r = Some (ErrResponse r)" if "v2_Response.StatusCode r \<in> {199, 300}"
    using that by (auto simp add: v2_assertError_range)
  show "v2_assertError r = None" if "v2_Response.StatusCode r \<in> {200, 299}"
    using that by (auto simp add: v2_assertError_range)
  show "v3_assertError r' = None \<longleftrightarrow> 200 \<le> v3_Response.StatusCode r' \<and> v3_Response.StatusCode r' \<le> 299"
    by (simp add: v3_assertError_range)
  show "v3_assertError r' = Some (ErrResponse r')" if "v3_assertError r' \<noteq> None"
    using that by (simp add: v3_assertError_range split: if_splits)
  show "v3_assertError r' = Some (ErrResponse r')" if "v3_Response.StatusCode r' \<in> {199, 300}"
    using that by (auto simp add: v3_assertError_range)
  show "v3_assertError r' = None" if "v3_Response.StatusCode r' \<in> {200, 299}"
    using that by (auto simp add: v3_assertError_range)
qed (erule (3) v2_GetQueueLength_reply v2_Purge_reply v2_GetPurgeStatus_reply
     | erule (2) v3_Purge_reply)+

theorem status_classification_witness:
  "fst (v2_GetQueueLength mock_v2_ext (mock_v2_Client (mock_reply 200 ''200'')) (Some 0) mock_world)
     = Return (Some (v2_QueueLengthResponse_zero\<lparr>v2_QueueLengthResponse.Response :=
                       v2_Response_zero\<lparr>v2_Response.StatusCode := 200\<rparr>, QueueLength := 42\<rparr>), None)
   \<and> fst (v2_GetQueueLength mock_v2_ext (mock_v2_Client (mock_reply 200 ''300'')) (Some 0) mock_world)
     = Return (None, Some (ErrResponse (v2_Response_zero\<lparr>v2_Response.StatusCode := 300\<rparr>)))
   \<and> fst (v2_Purge mock_v2_ext (mock_v2_Client (mock_reply 201 ''299'')) (NewPurgeRequest [''a''])
            (Some 0) mock_world)
     = Return (Some (v2_PurgeResponse_zero\<lparr>v2_PurgeResponse.Response :=
                       v2_Response_zero\<lparr>v2_Response.StatusCode := 299\<rparr>,
                     v2_PurgeResponse.EstimatedSeconds := 300, v2_PurgeResponse.PurgeID := ''abc'',
                     Time := 1700000000000000000\<rparr>), None)
   \<and> fst (v2_Purge mock_v2_ext (mock_v2_Client (mock_reply 201 ''199'')) (NewPurgeRequest [''a''])
            (Some 0) mock_world)
     = Return (None, Some (ErrResponse (v2_Response_zero\<lparr>v2_Response.StatusCode := 199\<rparr>)))
   \<and> fst (v2_GetPurgeStatus mock_v2_ext (mock_v2_Client (mock_reply 200 ''200'')) ''abc'' (Some 0)
            mock_world)
     = Return (Some (v2_PurgeStatusResponse_zero\<lparr>v2_PurgeStatusResponse.Response :=
                       v2_Response_zero\<lparr>v2_Response.StatusCode := 200\<rparr>, PurgeStatus := ''Done''\<rparr>), None)
   \<and> fst (v2_GetPurgeStatus mock_v2_ext (mock_v2_Client (mock_reply 400 ''400'')) ''abc'' (Some 0)
            mock_world)
     = Return (None, Some (ErrResponse (v2_Response_zero\<lparr>v2_Response.StatusCode := 400\<rparr>)))
   \<and> fst (v3_Purge mock_v3_ext (mock_v3_Client (mock_reply 201 ''201''))
            \<lparr>Type = ''url'', Action = [], Network = [], Hostname = ''h'', Objects = [''/x'']\<rparr>
            None mock_world)
     = (Some (v3_PurgeResponse_zero\<lparr>v3_PurgeResponse.Response :=
                v3_Response_zero\<lparr>v3_Response.StatusCode := 201\<rparr>,
              v3_PurgeResponse.EstimatedSeconds := 5, v3_PurgeResponse.PurgeID := ''abc''\<rparr>), None)
   \<and> fst (v3_Purge mock_v3_ext (mock_v3_Client (mock_reply 400 ''300''))
            \<lparr>Type = ''url'', Action = [], Network = [], Hostname = ''h'', Objects = [''/x'']\<rparr>
            None mock_world)
     = (None, Some (ErrResponse (v3_Response_zero\<lparr>v3_Response.StatusCode := 300\<rparr>)))
   \<and> v2_assertError (v2_Response_zero\<lparr>v2_Response.StatusCode := 199\<rparr>)
        = Some (ErrResponse (v2_Response_zero\<lparr>v2_Response.StatusCode := 199\<rparr>))
   \<and> v2_assertError (v2_Response_zero\<lparr>v2_Response.StatusCode := 200\<rparr>) = None
   \<and> v3_assertError (v3_Response_zero\<lparr>v3_Response.StatusCode := 299\<rparr>) = None
   \<and> v3_assertError (v3_Response_zero\<lparr>v3_Response.StatusCode := 300\<rparr>)
        = Some (ErrResponse (v3_Response_zero\<lparr>v3_Response.StatusCode := 300\<rparr>))"
proof -
  let ?q = "apiURL @ ''/ccu/v2/queues/default''"
  let ?s = "apiURL @ ''/ccu/v2/purges/abc''"
  let ?r3 = "\<lparr>Type = ''url'', Action = [], Network = [], Hostname = ''h'', Objects = [''/x'']\<rparr>"
  have dq: "Decode_QueueLengthResponse mock_v2_ext b v2_QueueLengthResponse_zero =
      (case mock_status b of None \<Rightarrow> (Some ''invalid character'', v2_QueueLengthResponse_zero)
       | Some s \<Rightarrow> (None, v2_QueueLengthResponse_zero\<lparr>v2_QueueLengthResponse.Response :=
            v2_Response_zero\<lparr>v2_Response.StatusCode := s\<rparr>, QueueLength := 42\<rparr>))" for b
    by (simp add: mock_v2_ext_def v2_QueueLengthResponse_zero_def split: option.splits)
  have dp: "v2_ext.Decode_PurgeResponse mock_v2_ext b v2_PurgeResponse_zero =
      (case mock_status b of None \<Rightarrow> (Some ''invalid character'', v2_PurgeResponse_zero)
       | Some s \<Rightarrow> (None, v2_PurgeResponse_zero\<lparr>v2_PurgeResponse.Response :=
            v2_Response_zero\<lparr>v2_Response.StatusCode := s\<rparr>,
            v2_PurgeResponse.EstimatedSeconds := 300, v2_PurgeResponse.PurgeID := ''abc''\<rparr>))" for b
    by (simp add: mock_v2_ext_def v2_PurgeResponse_zero_def split: option.splits)
  have ds: "Decode_PurgeStatusResponse mock_v2_ext b v2_PurgeStatusResponse_zero =
      (case mock_status b of None \<Rightarrow> (Some ''invalid character'', v2_PurgeStatusResponse_zero)
       | Some s \<Rightarrow> (None, v2_PurgeStatusResponse_zero\<lparr>v2_PurgeStatusResponse.Response :=
            v2_Response_zero\<lparr>v2_Response.StatusCode := s\<rparr>, PurgeStatus := ''Done''\<rparr>))" for b
    by (simp add: mock_v2_ext_def v2_PurgeStatusResponse_zero_def split: option.splits)
  have d3: "v3_ext.Decode_PurgeResponse mock_v3_ext b v3_PurgeResponse_zero =
      (case mock_status b of None \<Rightarrow> (Some ''invalid character'', v3_PurgeResponse_zero)
       | Some s \<Rightarrow> (None, v3_PurgeResponse_zero\<lparr>v3_PurgeResponse.Response :=
            v3_Response_zero\<lparr>v3_Response.StatusCode := s\<rparr>,
            v3_PurgeResponse.EstimatedSeconds := 5, v3_PurgeResponse.PurgeID := ''abc''\<rparr>))" for b
    by (simp add: mock_v3_ext_def v3_PurgeResponse_zero_def split: option.splits)
  have st: "mock_status ''199'' = Some 199" "mock_status ''200'' = Some 200"
    "mock_status ''201'' = Some 201" "mock_status ''299'' = Some 299"
    "mock_status ''300'' = Some 300" "mock_status ''400'' = Some 400"
    by (simp_all add: mock_status_def)
  have q: "Queue (NewPurgeRequest [''a'']) = []"
    by (simp add: NewPurgeRequest_def)
  obtain h1 where h1: "v2_newHTTPRequest mock_v2_ext (mock_v2_Client (mock_reply 200 ''200''))
      ''GET'' ?q None (Some 0) = Return (Inr h1)"
    using mock_v2_request by blast
  obtain h2 where h2: "v2_newHTTPRequest mock_v2_ext (mock_v2_Client (mock_reply 200 ''300''))
      ''GET'' ?q None (Some 0) = Return (Inr h2)"
    using mock_v2_request by blast
  obtain h3 where h3: "v2_newHTTPRequest mock_v2_ext (mock_v2_Client (mock_reply 201 ''299''))
      ''POST'' (apiURL @ ''/ccu/v2/queues/'' @ (if Queue (NewPurgeRequest [''a'']) = [] then ''default''
         else Queue (NewPurgeRequest [''a''])))
      (Some (NewPurgeRequest [''a''])) (Some 0) = Return (Inr h3)"
    using mock_v2_request by blast
  obtain h4 where h4: "v2_newHTTPRequest mock_v2_ext (mock_v2_Client (mock_reply 201 ''199''))
      ''POST'' (apiURL @ ''/ccu/v2/queues/'' @ (if Queue (NewPurgeRequest [''a'']) = [] then ''default''
         else Queue (NewPurgeRequest [''a''])))
      (Some (NewPurgeRequest [''a''])) (Some 0) = Return (Inr h4)"
    using mock_v2_request by blast
  obtain h5 where h5: "v2_newHTTPRequest mock_v2_ext (mock_v2_Client (mock_reply 200 ''200''))
      ''GET'' ?s None (Some 0) = Return (Inr h5)"
    using mock_v2_request by blast
  obtain h6 where h6: "v2_newHTTPRequest mock_v2_ext (mock_v2_Client (mock_reply 400 ''400''))
      ''GET'' ?s None (Some 0) = Return (Inr h6)"
    using mock_v2_request by blast
  obtain h7 where h7: "v3_newHTTPRequest mock_v3_ext (mock_v3_Client (mock_reply 201 ''201''))
      ''POST'' (Path (with_defaults ?r3)) (Some (with_defaults ?r3)) None =
      (Inr h7, (mock_v3_Client (mock_reply 201 ''201''))\<lparr>Config := Some (EdgegridConfig ''akab-host'')\<rparr>)"
    using mock_v3_request by blast
  obtain h8 where h8: "v3_newHTTPRequest mock_v3_ext (mock_v3_Client (mock_reply 400 ''300''))
      ''POST'' (Path (with_defaults ?r3)) (Some (with_defaults ?r3)) None =
      (Inr h8, (mock_v3_Client (mock_reply 400 ''300''))\<lparr>Config := Some (EdgegridConfig ''akab-host'')\<rparr>)"
    using mock_v3_request by blast
  note Ta = status_classification [THEN conjunct2, THEN conjunct2, THEN conjunct1, rule_format]
  note Tb = status_classification [THEN conjunct2, THEN conjunct2, THEN conjunct2, THEN conjunct1, rule_format]
  note Tc = status_classification [THEN conjunct2, THEN conjunct2, THEN conjunct2, THEN conjunct2, THEN conjunct2, THEN conjunct2, THEN conjunct1, rule_format]
  note Td = status_classification [THEN conjunct2, THEN conjunct2, THEN conjunct2, THEN conjunct2, THEN conjunct2, THEN conjunct2, THEN conjunct2, THEN conjunct1, rule_format]
  note Tq = status_classification [THEN conjunct2, THEN conjunct2, THEN conjunct2, THEN conjunct2, THEN conjunct2, THEN conjunct2, THEN conjunct2, THEN conjunct2, THEN conjunct1, rule_format]
  note Tp = status_classification [THEN conjunct2, THEN conjunct2, THEN conjunct2, THEN conjunct2, THEN conjunct2, THEN conjunct2, THEN conjunct2, THEN conjunct2, THEN conjunct2, THEN conjunct1, rule_format]
  note Ts = status_classification [THEN conjunct2, THEN conjunct2, THEN conjunct2, THEN conjunct2, THEN conjunct2, THEN conjunct2, THEN conjunct2, THEN conjunct2, THEN conjunct2, THEN conjunct2, THEN conjunct1, rule_format]
  note T3 = status_classification [THEN conjunct2, THEN conjunct2, THEN conjunct2, THEN conjunct2, THEN conjunct2, THEN conjunct2, THEN conjunct2, THEN conjunct2, THEN conjunct2, THEN conjunct2, THEN conjunct2, rule_format]
  have a1: "fst (v2_GetQueueLength mock_v2_ext (mock_v2_Client (mock_reply 200 ''200'')) (Some 0) mock_world)
     = Return (Some (v2_QueueLengthResponse_zero\<lparr>v2_QueueLengthResponse.Response :=
                       v2_Response_zero\<lparr>v2_Response.StatusCode := 200\<rparr>, QueueLength := 42\<rparr>), None)"
    using Tq [where ext = mock_v2_ext and c = "mock_v2_Client (mock_reply 200 ''200'')"
        and ctx = "Some 0" and hq = h1 and w = mock_world
        and resp = "\<lparr>http_Response.StatusCode = 200, Body = ''200''\<rparr>"
        and vq = "v2_QueueLengthResponse_zero\<lparr>v2_QueueLengthResponse.Response :=
                       v2_Response_zero\<lparr>v2_Response.StatusCode := 200\<rparr>, QueueLength := 42\<rparr>"]
      h1
    by (simp add: mock_v2_transport dq st)
  have a2: "fst (v2_GetQueueLength mock_v2_ext (mock_v2_Client (mock_reply 200 ''300'')) (Some 0) mock_world)
     = Return (None, Some (ErrResponse (v2_Response_zero\<lparr>v2_Response.StatusCode := 300\<rparr>)))"
    using Tq [where ext = mock_v2_ext and c = "mock_v2_Client (mock_reply 200 ''300'')"
        and ctx = "Some 0" and hq = h2 and w = mock_world
        and resp = "\<lparr>http_Response.StatusCode = 200, Body = ''300''\<rparr>"
        and vq = "v2_QueueLengthResponse_zero\<lparr>v2_QueueLengthResponse.Response :=
                       v2_Response_zero\<lparr>v2_Response.StatusCode := 300\<rparr>, QueueLength := 42\<rparr>"]
      h2
    by (simp add: mock_v2_transport dq st)
  have a3: "fst (v2_Purge mock_v2_ext (mock_v2_Client (mock_reply 201 ''299'')) (NewPurgeRequest [''a''])
            (Some 0) mock_world)
     = Return (Some (v2_PurgeResponse_zero\<lparr>v2_PurgeResponse.Response :=
                       v2_Response_zero\<lparr>v2_Response.StatusCode := 299\<rparr>,
                     v2_PurgeResponse.EstimatedSeconds := 300, v2_PurgeResponse.PurgeID := ''abc'',
                     Time := 1700000000000000000\<rparr>), None)"
    using Tp [where ext = mock_v2_ext and c = "mock_v2_Client (mock_reply 201 ''299'')"
        and ctx = "Some 0" and hp = h3 and w = mock_world and req = "NewPurgeRequest [''a'']"
        and resp = "\<lparr>http_Response.StatusCode = 201, Body = ''299''\<rparr>"
        and vp = "v2_PurgeResponse_zero\<lparr>v2_PurgeResponse.Response :=
                       v2_Response_zero\<lparr>v2_Response.StatusCode := 299\<rparr>,
                     v2_PurgeResponse.EstimatedSeconds := 300, v2_PurgeResponse.PurgeID := ''abc''\<rparr>"]
      h3
    by (simp add: mock_v2_transport dp st mock_world_def)
  have a4: "fst (v2_Purge mock_v2_ext (mock_v2_Client (mock_reply 201 ''199'')) (NewPurgeRequest [''a''])
            (Some 0) mock_world)
     = Return (None, Some (ErrResponse (v2_Response_zero\<lparr>v2_Response.StatusCode := 199\<rparr>)))"
    using Tp [where ext = mock_v2_ext and c = "mock_v2_Client (mock_reply 201 ''199'')"
        and ctx = "Some 0" and hp = h4 and w = mock_world and req = "NewPurgeRequest [''a'']"
        and resp = "\<lparr>http_Response.StatusCode = 201, Body = ''199''\<rparr>"
        and vp = "v2_PurgeResponse_zero\<lparr>v2_PurgeResponse.Response :=
                       v2_Response_zero\<lparr>v2_Response.StatusCode := 199\<rparr>,
                     v2_PurgeResponse.EstimatedSeconds := 300, v2_PurgeResponse.PurgeID := ''abc''\<rparr>"]
      h4
    by (simp add: mock_v2_transport dp st)
  have a5: "fst (v2_GetPurgeStatus mock_v2_ext (mock_v2_Client (mock_reply 200 ''200'')) ''abc'' (Some 0)
            mock_world)
     = Return (Some (v2_PurgeStatusResponse_zero\<lparr>v2_PurgeStatusResponse.Response :=
                       v2_Response_zero\<lparr>v2_Response.StatusCode := 200\<rparr>, PurgeStatus := ''Done''\<rparr>), None)"
    using Ts [where ext = mock_v2_ext and c = "mock_v2_Client (mock_reply 200 ''200'')"
        and ctx = "Some 0" and hs = h5 and w = mock_world and purgeID = "''abc''"
        and resp = "\<lparr>http_Response.StatusCode = 200, Body = ''200''\<rparr>"
        and vs = "v2_PurgeStatusResponse_zero\<lparr>v2_PurgeStatusResponse.Response :=
                       v2_Response_zero\<lparr>v2_Response.StatusCode := 200\<rparr>, PurgeStatus := ''Done''\<rparr>"]
      h5
    by (simp add: mock_v2_transport ds st)
  have a6: "fst (v2_GetPurgeStatus mock_v2_ext (mock_v2_Client (mock_reply 400 ''400'')) ''abc'' (Some 0)
            mock_world)
     = Return (None, Some (ErrResponse (v2_Response_zero\<lparr>v2_Response.StatusCode := 400\<rparr>)))"
    using Ts [where ext = mock_v2_ext and c = "mock_v2_Client (mock_reply 400 ''400'')"
        and ctx = "Some 0" and hs = h6 and w = mock_world and purgeID = "''abc''"
        and resp = "\<lparr>http_Response.StatusCode = 400, Body = ''400''\<rparr>"
        and vs = "v2_PurgeStatusResponse_zero\<lparr>v2_PurgeStatusResponse.Response :=
                       v2_Response_zero\<lparr>v2_Response.StatusCode := 400\<rparr>, PurgeStatus := ''Done''\<rparr>"]
      h6
    by (simp add: mock_v2_transport ds st)
  have a7: "fst (v3_Purge mock_v3_ext (mock_v3_Client (mock_reply 201 ''201'')) ?r3 None mock_world)
     = (Some (v3_PurgeResponse_zero\<lparr>v3_PurgeResponse.Response :=
                v3_Response_zero\<lparr>v3_Response.StatusCode := 201\<rparr>,
              v3_PurgeResponse.EstimatedSeconds := 5, v3_PurgeResponse.PurgeID := ''abc''\<rparr>), None)"
    using T3 [where ?ext3.0 = mock_v3_ext and ?c3.0 = "mock_v3_Client (mock_reply 201 ''201'')"
        and ctx = None and ?h3.0 = h7 and w = mock_world and ?req3.0 = ?r3
        and ?c3' = "(mock_v3_Client (mock_reply 201 ''201''))\<lparr>Config := Some (EdgegridConfig ''akab-host'')\<rparr>"
        and resp = "\<lparr>http_Response.StatusCode = 201, Body = ''201''\<rparr>"
        and ?v3.0 = "v3_PurgeResponse_zero\<lparr>v3_PurgeResponse.Response :=
                v3_Response_zero\<lparr>v3_Response.StatusCode := 201\<rparr>,
              v3_PurgeResponse.EstimatedSeconds := 5, v3_PurgeResponse.PurgeID := ''abc''\<rparr>"]
      h7
    by (simp add: mock_v3_transport d3 st)
  have a8: "fst (v3_Purge mock_v3_ext (mock_v3_Client (mock_reply 400 ''300'')) ?r3 None mock_world)
     = (None, Some (ErrResponse (v3_Response_zero\<lparr>v3_Response.StatusCode := 300\<rparr>)))"
    using T3 [where ?ext3.0 = mock_v3_ext and ?c3.0 = "mock_v3_Client (mock_reply 400 ''300'')"
        and ctx = None and ?h3.0 = h8 and w = mock_world and ?req3.0 = ?r3
        and ?c3' = "(mock_v3_Client (mock_reply 400 ''300''))\<lparr>Config := Some (EdgegridConfig ''akab-host'')\<rparr>"
        and resp = "\<lparr>http_Response.StatusCode = 400, Body = ''300''\<rparr>"
        and ?v3.0 = "v3_PurgeResponse_zero\<lparr>v3_PurgeResponse.Response :=
                v3_Response_zero\<lparr>v3_Response.StatusCode := 300\<rparr>,
              v3_PurgeResponse.EstimatedSeconds := 5, v3_PurgeResponse.PurgeID := ''abc''\<rparr>"]
      h8
    by (simp add: mock_v3_transport d3 st)
  have a9: "v2_assertError (v2_Response_zero\<lparr>v2_Response.StatusCode := 199\<rparr>)
        = Some (ErrResponse (v2_Response_zero\<lparr>v2_Response.StatusCode := 199\<rparr>))"
    using Ta [where r = "v2_Response_zero\<lparr>v2_Response.StatusCode := 199\<rparr>"] by simp
  have a10: "v2_assertError (v2_Response_zero\<lparr>v2_Response.StatusCode := 200\<rparr>) = None"
    using Tb [where r = "v2_Response_zero\<lparr>v2_Response.StatusCode := 200\<rparr>"] by simp
  have a11: "v3_assertError (v3_Response_zero\<lparr>v3_Response.StatusCode := 299\<rparr>) = None"
    using Td [where r' = "v3_Response_zero\<lparr>v3_Response.StatusCode := 299\<rparr>"] by simp
  have a12: "v3_assertError (v3_Response_zero\<lparr>v3_Response.StatusCode := 300\<rparr>)
        = Some (ErrResponse (v3_Response_zero\<lparr>v3_Response.StatusCode := 300\<rparr>))"
    using Tc [where r' = "v3_Response_zero\<lparr>v3_Response.StatusCode := 300\<rparr>"] by simp
  show ?thesis
    using a1 a2 a3 a4 a5 a6 a7 a8 a9 a10 a11 a12 by (simp only: simp_thms)
qed

text \<open>
  C6. When the transport replies with HTTP status 401, v2 \<^verbatim>\<open>do\<close> returns no response and
  the error \<open>unauthorized\<close>, whatever the decoder would do with the body: the target is
  left as it was and the only event added to the trace is the request, so no body reaches
  the decoder. Each of the three v2 operations, once its request is built, returns that same
  error and no value. The error differs from every decode error.
\<close>

theorem unauthorized_before_decode:
  "(v2_Client.HTTPClient c h = Inr resp \<and> http_Response.StatusCode resp = 401
      \<longrightarrow> v2_do c dec h v w =
            ((None, Some (Errorf ''unauthorized'')), v, w\<lparr>trace := trace w @ [HTTPDo h]\<rparr>))
   \<and> (v2_newHTTPRequest ext c ''GET'' (apiURL @ ''/ccu/v2/queues/default'') None ctx = Return (Inr h)
        \<and> v2_Client.HTTPClient c h = Inr resp \<and> http_Response.StatusCode resp = 401
      \<longrightarrow> v2_GetQueueLength ext c ctx w =
            (Return (None, Some (Errorf ''unauthorized'')), w\<lparr>trace := trace w @ [HTTPDo h]\<rparr>))
   \<and> (v2_newHTTPRequest ext c ''POST''
          (apiURL @ ''/ccu/v2/queues/'' @ (if Queue req = [] then ''default'' else Queue req))
          (Some req) ctx = Return (Inr h)
        \<and> v2_Client.HTTPClient c h = Inr resp \<and> http_Response.StatusCode resp = 401
      \<longrightarrow> v2_Purge ext c req ctx w =
            (Return (None, Some (Errorf ''unauthorized'')), req, w\<lparr>trace := trace w @ [HTTPDo h]\<rparr>))
   \<and> (v2_newHTTPRequest ext c ''GET'' (apiURL @ ''/ccu/v2/purges/'' @ purgeID) None ctx = Return (Inr h)
        \<and> v2_Client.HTTPClient c h = Inr resp \<and> http_Response.StatusCode resp = 401
      \<longrightarrow> v2_GetPurgeStatus ext c purgeID ctx w =
            (Return (None, Some (Errorf ''unauthorized'')), w\<lparr>trace := trace w @ [HTTPDo h]\<rparr>))
   \<and> decoded (trace (w\<lparr>trace := trace w @ [HTTPDo h]\<rparr>)) = decoded (trace w)
   \<and> (Errorf ''unauthorized'' :: v2_Response go_error)
        \<noteq> Errorf (''error decoding JSON response: '' @ e)"
proof (intro conjI impI; (elim conjE)?)
  show "v2_do c dec h v w =
      ((None, Some (Errorf ''unauthorized'')), v, w\<lparr>trace := trace w @ [HTTPDo h]\<rparr>)"
    if "v2_Client.HTTPClient c h = Inr resp" "http_Response.StatusCode resp = 401"
    using that by (simp add: v2_do_401 emit_def)
  show "decoded (trace (w\<lparr>trace := trace w @ [HTTPDo h]\<rparr>)) = decoded (trace w)"
    by (simp add: decoded_append)
  show "(Errorf ''unauthorized'' :: v2_Response go_error)
        \<noteq> Errorf (''error decoding JSON response: '' @ e)"
    by simp
qed (erule (2) v2_GetQueueLength_401 v2_Purge_401 v2_GetPurgeStatus_401)+

theorem unauthorized_before_decode_witness:
  "v2_do (mock_v2_Client (mock_reply 401 ''not json'')) (Decode_QueueLengthResponse mock_v2_ext)
      \<lparr>Method = ''GET'', URL = ''u'', Header = Map.empty, http_Request.Body = None, Ctx = Some 0\<rparr>
      (Some v2_QueueLengthResponse_zero) mock_world
     = ((None, Some (Errorf ''unauthorized'')), Some v2_QueueLengthResponse_zero,
        mock_world\<lparr>trace := [HTTPDo \<lparr>Method = ''GET'', URL = ''u'', Header = Map.empty,
                                     http_Request.Body = None, Ctx = Some 0\<rparr>]\<rparr>)
   \<and> fst (v2_GetQueueLength mock_v2_ext (mock_v2_Client (mock_reply 401 ''not json'')) (Some 0) mock_world)
       = Return (None, Some (Errorf ''unauthorized''))
   \<and> fst (v2_Purge mock_v2_ext (mock_v2_Client (mock_reply 401 ''not json'')) (NewPurgeRequest [''a''])
            (Some 0) mock_world)
       = Return (None, Some (Errorf ''unauthorized''))
   \<and> fst (v2_GetPurgeStatus mock_v2_ext (mock_v2_Client (mock_reply 401 ''not json'')) ''abc'' (Some 0)
            mock_world)
       = Return (None, Some (Errorf ''unauthorized''))
   \<and> fst (Decode_QueueLengthResponse mock_v2_ext ''not json'' v2_QueueLengthResponse_zero)
       = Some ''invalid character''"
proof -
  let ?c = "mock_v2_Client (mock_reply 401 ''not json'')"
  let ?resp = "\<lparr>http_Response.StatusCode = 401, Body = ''not json''\<rparr>"
  let ?h = "\<lparr>Method = ''GET'', URL = ''u'', Header = Map.empty, http_Request.Body = None, Ctx = Some 0\<rparr>"
  note U = unauthorized_before_decode
  note Ud = U [THEN conjunct1, rule_format]
  note Uq = U [THEN conjunct2, THEN conjunct1, rule_format]
  note Up = U [THEN conjunct2, THEN conjunct2, THEN conjunct1, rule_format]
  note Us = U [THEN conjunct2, THEN conjunct2, THEN conjunct2, THEN conjunct1, rule_format]
  obtain h1 where h1: "v2_newHTTPRequest mock_v2_ext ?c ''GET'' (apiURL @ ''/ccu/v2/queues/default'')
      None (Some 0) = Return (Inr h1)"
    using mock_v2_request by blast
  obtain h2 where h2: "v2_newHTTPRequest mock_v2_ext ?c ''POST''
      (apiURL @ ''/ccu/v2/queues/'' @ (if Queue (NewPurgeRequest [''a'']) = [] then ''default''
         else Queue (NewPurgeRequest [''a''])))
      (Some (NewPurgeRequest [''a''])) (Some 0) = Return (Inr h2)"
    using mock_v2_request by blast
  obtain h3 where h3: "v2_newHTTPRequest mock_v2_ext ?c ''GET'' (apiURL @ ''/ccu/v2/purges/'' @ ''abc'')
      None (Some 0) = Return (Inr h3)"
    using mock_v2_request by blast
  have a1: "v2_do ?c (Decode_QueueLengthResponse mock_v2_ext) ?h (Some v2_QueueLengthResponse_zero) mock_world
     = ((None, Some (Errorf ''unauthorized'')), Some v2_QueueLengthResponse_zero,
        mock_world\<lparr>trace := [HTTPDo ?h]\<rparr>)"
    using Ud [where c = ?c and h = ?h and resp = ?resp
        and dec = "Decode_QueueLengthResponse mock_v2_ext" and v = "Some v2_QueueLengthResponse_zero"
        and w = mock_world]
    by (simp add: mock_v2_transport mock_world_def)
  have a2: "fst (v2_GetQueueLength mock_v2_ext ?c (Some 0) mock_world)
       = Return (None, Some (Errorf ''unauthorized''))"
    using Uq [where c = ?c and h = h1 and resp = ?resp and ext = mock_v2_ext and ctx = "Some 0"
        and w = mock_world] h1
    by (simp add: mock_v2_transport)
  have a3: "fst (v2_Purge mock_v2_ext ?c (NewPurgeRequest [''a'']) (Some 0) mock_world)
       = Return (None, Some (Errorf ''unauthorized''))"
    using Up [where c = ?c and h = h2 and resp = ?resp and ext = mock_v2_ext and ctx = "Some 0"
        and w = mock_world and req = "NewPurgeRequest [''a'']"] h2
    by (simp add: mock_v2_transport)
  have a4: "fst (v2_GetPurgeStatus mock_v2_ext ?c ''abc'' (Some 0) mock_world)
       = Return (None, Some (Errorf ''unauthorized''))"
    using Us [where c = ?c and h = h3 and resp = ?resp and ext = mock_v2_ext and ctx = "Some 0"
        and w = mock_world and purgeID = "''abc''"] h3
    by (simp add: mock_v2_transport)
  have a5: "fst (Decode_QueueLengthResponse mock_v2_ext ''not json'' v2_QueueLengthResponse_zero)
       = Some ''invalid character''"
    by (simp add: mock_v2_ext_def mock_status_def)
  show ?thesis
    using a1 a2 a3 a4 a5 by (simp only: simp_thms)
qed

text \<open>
  C7. When the decoder fails on the body of a reply (for v2, a reply whose status is not
  401, since a 401 never reaches the decoder), \<^verbatim>\<open>do\<close> returns the error
  \<open>error decoding JSON response: \<close> followed by the decoder's message; v2 returns no
  HTTP response with it, v3 returns the HTTP response with it.
\<close>

theorem decode_failure:
  "(v2_Client.HTTPClient c2 h = Inr resp \<and> http_Response.StatusCode resp \<noteq> 401
      \<and> dec (http_Response.Body resp) x = (Some e, x')
      \<longrightarrow> v2_do c2 dec h (Some x) w =
            ((None, Some (Errorf (''error decoding JSON response: '' @ e))), Some x',
             emit (JSONDecode (http_Response.Body resp)) (emit (HTTPDo h) w)))
   \<and> (v3_Client.HTTPClient c3 h = Inr resp
      \<and> dec (http_Response.Body resp) x = (Some e, x')
      \<longrightarrow> v3_do c3 dec h (Some x) w =
            ((Some resp, Some (Errorf (''error decoding JSON response: '' @ e))), Some x',
             emit (JSONDecode (http_Response.Body resp)) (emit (HTTPDo h) w)))"
  by (simp add: v2_do_decode_fails v3_do_decode_fails)

theorem decode_failure_witness:
  "fst (v2_do (mock_v2_Client (mock_reply 200 ''<html>'')) (v2_ext.Decode_PurgeResponse mock_v2_ext)
      \<lparr>Method = ''POST'', URL = ''u'', Header = Map.empty, http_Request.Body = None, Ctx = Some 0\<rparr>
      (Some v2_PurgeResponse_zero) mock_world)
     = (None, Some (Errorf ''error decoding JSON response: invalid character''))
   \<and> fst (v3_do (mock_v3_Client (mock_reply 200 ''<html>'')) (v3_ext.Decode_PurgeResponse mock_v3_ext)
      \<lparr>Method = ''POST'', URL = ''u'', Header = Map.empty, http_Request.Body = None, Ctx = Some 0\<rparr>
      (Some v3_PurgeResponse_zero) mock_world)
     = (Some \<lparr>http_Response.StatusCode = 200, Body = ''<html>''\<rparr>,
        Some (Errorf ''error decoding JSON response: invalid character''))"
proof -
  let ?resp = "\<lparr>http_Response.StatusCode = 200, Body = ''<html>''\<rparr>"
  let ?h = "\<lparr>Method = ''POST'', URL = ''u'', Header = Map.empty, http_Request.Body = None, Ctx = Some 0\<rparr>"
  note D2 = decode_failure [THEN conjunct1, rule_format]
  note D3 = decode_failure [THEN conjunct2, rule_format]
  have a1: "fst (v2_do (mock_v2_Client (mock_reply 200 ''<html>'')) (v2_ext.Decode_PurgeResponse mock_v2_ext)
      ?h (Some v2_PurgeResponse_zero) mock_world)
     = (None, Some (Errorf ''error decoding JSON response: invalid character''))"
    using D2 [where ?c2.0 = "mock_v2_Client (mock_reply 200 ''<html>'')" and h = ?h and resp = ?resp
        and dec = "v2_ext.Decode_PurgeResponse mock_v2_ext" and x = v2_PurgeResponse_zero
        and e = "''invalid character''" and x' = v2_PurgeResponse_zero and w = mock_world]
    by (simp add: mock_v2_transport mock_v2_ext_def mock_status_def)
  have a2: "fst (v3_do (mock_v3_Client (mock_reply 200 ''<html>'')) (v3_ext.Decode_PurgeResponse mock_v3_ext)
      ?h (Some v3_PurgeResponse_zero) mock_world)
     = (Some ?resp, Some (Errorf ''error decoding JSON response: invalid character''))"
    using D3 [where ?c3.0 = "mock_v3_Client (mock_reply 200 ''<html>'')" and h = ?h and resp = ?resp
        and dec = "v3_ext.Decode_PurgeResponse mock_v3_ext" and x = v3_PurgeResponse_zero
        and e = "''invalid character''" and x' = v3_PurgeResponse_zero and w = mock_world]
    by (simp add: mock_v3_transport mock_v3_ext_def mock_status_def)
  show ?thesis
    using a1 a2 by (simp only: simp_thms)
qed

text \<open>
  C8, as the code has it. \<^verbatim>\<open>ETA()\<close> is the zero Time when the submission time is
  the zero Time. Otherwise it is the submission time plus \<^verbatim>\<open>EstimatedSeconds\<close> seconds
  as long as that many seconds fit a \<^verbatim>\<open>time.Duration\<close>, that is for
  \<^verbatim>\<open>EstimatedSeconds\<close> between -9223372036 and 9223372036, and the seconds of the
  submission time plus \<^verbatim>\<open>EstimatedSeconds\<close> lie between -9223372036854775807 and
  9223372036854775807, the counts of seconds a \<^verbatim>\<open>time.Time\<close> reaches by addition. Every
  successful v2 \<^verbatim>\<open>Purge\<close> returns a response whose \<^verbatim>\<open>Time\<close> is the clock reading,
  and a \<^verbatim>\<open>Purge\<close> that returns an error returns no response, so no time is recorded.
\<close>

theorem ETA_and_submission_time:
  "(Time_IsZero (Time p) \<longrightarrow> ETA p = Time_zero)
   \<and> (\<not> Time_IsZero (Time p)
        \<and> - 9223372036 \<le> v2_PurgeResponse.EstimatedSeconds p
        \<and> v2_PurgeResponse.EstimatedSeconds p \<le> 9223372036
        \<and> - 9223372036854775807 \<le> Time p div 1000000000 + v2_PurgeResponse.EstimatedSeconds p
        \<and> Time p div 1000000000 + v2_PurgeResponse.EstimatedSeconds p \<le> 9223372036854775807
      \<longrightarrow> ETA p = Time p + v2_PurgeResponse.EstimatedSeconds p * 1000000000)
   \<and> (v2_Purge ext c req ctx w = (Return (Some v, e), req', w') \<longrightarrow> Time v = now w' \<and> e = None)
   \<and> (v2_Purge ext c req ctx w = (Return (r, Some e'), req', w') \<longrightarrow> r = None)"
proof (intro conjI impI; (elim conjE)?)
  show "ETA p = Time_zero" if "Time_IsZero (Time p)"
    using that by (simp add: ETA_def)
  show "ETA p = Time p + v2_PurgeResponse.EstimatedSeconds p * 1000000000"
    if "\<not> Time_IsZero (Time p)" "- 9223372036 \<le> v2_PurgeResponse.EstimatedSeconds p"
      "v2_PurgeResponse.EstimatedSeconds p \<le> 9223372036"
      "- 9223372036854775807 \<le> Time p div 1000000000 + v2_PurgeResponse.EstimatedSeconds p"
      "Time p div 1000000000 + v2_PurgeResponse.EstimatedSeconds p \<le> 9223372036854775807"
  proof -
    have "wrap64 (1000000000 * v2_PurgeResponse.EstimatedSeconds p)
        = 1000000000 * v2_PurgeResponse.EstimatedSeconds p"
      using that(2,3) by (intro wrap64_id) simp_all
    then show ?thesis
      using that(1) Time_Add_seconds [OF that(4,5)]
      by (simp add: ETA_def Duration_mul_def time_Second_def)
  qed
  show "Time v = now w'" "e = None" if "v2_Purge ext c req ctx w = (Return (Some v, e), req', w')"
    using v2_Purge_success_Time [OF that] by simp_all
  show "r = None" if "v2_Purge ext c req ctx w = (Return (r, Some e'), req', w')"
    using that by (rule v2_Purge_failure_no_response)
qed

text \<open>
  Outside the first range the product \<^verbatim>\<open>time.Second * time.Duration(EstimatedSeconds)\<close>
  wraps around: with 9223372037 estimated seconds the result lies before the submission
  time. Outside the second range the addition stops at the last second a
  \<^verbatim>\<open>time.Time\<close> holds: ten seconds before it, 300 estimated seconds add ten.
\<close>

theorem ETA_overflow_counterexample:
  "ETA (v2_PurgeResponse_zero\<lparr>v2_PurgeResponse.EstimatedSeconds := 9223372037,
                               Time := 1700000000000000000\<rparr>)
     = 1700000000000000000 - 9223372036709551616
   \<and> ETA (v2_PurgeResponse_zero\<lparr>v2_PurgeResponse.EstimatedSeconds := 9223372037,
                               Time := 1700000000000000000\<rparr>)
     \<noteq> 1700000000000000000 + 9223372037 * 1000000000
   \<and> ETA (v2_PurgeResponse_zero\<lparr>v2_PurgeResponse.EstimatedSeconds := 300,
                               Time := 9223372036854775797000000000\<rparr>)
     = 9223372036854775797000000000 + 10 * 1000000000
   \<and> ETA (v2_PurgeResponse_zero\<lparr>v2_PurgeResponse.EstimatedSeconds := 300,
                               Time := 9223372036854775797000000000\<rparr>)
     \<noteq> 9223372036854775797000000000 + 300 * 1000000000"
  by (simp add: ETA_def v2_PurgeResponse_zero_def Time_IsZero_def Time_Add_def Duration_mul_def
      time_Second_def wrap64_def go_quot_def go_rem_def addSec_def Let_def)

theorem ETA_and_submission_time_witness:
  "ETA v2_PurgeResponse_zero = Time_zero
   \<and> ETA (v2_PurgeResponse_zero\<lparr>v2_PurgeResponse.EstimatedSeconds := 300,
                                 Time := 1700000000000000000\<rparr>) = 1700000300000000000
   \<and> (\<exists>v. fst (v2_Purge mock_v2_ext (mock_v2_Client (mock_reply 201 ''201'')) (NewPurgeRequest [''a''])
                   (Some 0) mock_world) = Return (Some v, None)
           \<and> Time v = 1700000000000000000 \<and> ETA v = 1700000300000000000)
   \<and> fst (v2_Purge mock_v2_ext (mock_v2_Client (mock_reply 400 ''400'')) (NewPurgeRequest [''a''])
            (Some 0) mock_world)
       = Return (None, Some (ErrResponse (v2_Response_zero\<lparr>v2_Response.StatusCode := 400\<rparr>)))"
proof -
  note E = ETA_and_submission_time
  note E1 = E [THEN conjunct1, rule_format]
  note E2 = E [THEN conjunct2, THEN conjunct1, rule_format]
  note E3 = E [THEN conjunct2, THEN conjunct2, THEN conjunct1, rule_format]
  note E4 = E [THEN conjunct2, THEN conjunct2, THEN conjunct2, rule_format]
  let ?ok = "v2_Purge mock_v2_ext (mock_v2_Client (mock_reply 201 ''201'')) (NewPurgeRequest [''a''])
                   (Some 0) mock_world"
  let ?bad = "v2_Purge mock_v2_ext (mock_v2_Client (mock_reply 400 ''400'')) (NewPurgeRequest [''a''])
                   (Some 0) mock_world"
  let ?v = "v2_PurgeResponse_zero\<lparr>v2_PurgeResponse.Response :=
                       v2_Response_zero\<lparr>v2_Response.StatusCode := 201\<rparr>,
                     v2_PurgeResponse.EstimatedSeconds := 300, v2_PurgeResponse.PurgeID := ''abc'',
                     Time := 1700000000000000000\<rparr>"
  have ev: "mock_status ''201'' = Some 201" "mock_status ''400'' = Some 400"
    by (simp_all add: mock_status_def)
  have ok: "?ok = (Return (Some ?v, None), NewPurgeRequest [''a''], snd (snd ?ok))"
    by (simp add: v2_Purge_def v2_newHTTPRequest_def v2_do_def Let_def mock_v2_ext_def
        mock_v2_Client_def mock_reply_def NewPurgeRequest_def ev deref_def v2_assertError_def
        v2_PurgeResponse_zero_def v2_Response_zero_def mock_world_def emit_def)
  have bad: "?bad = (Return (None, Some (ErrResponse (v2_Response_zero\<lparr>v2_Response.StatusCode := 400\<rparr>))),
        NewPurgeRequest [''a''], snd (snd ?bad))"
    by (simp add: v2_Purge_def v2_newHTTPRequest_def v2_do_def Let_def mock_v2_ext_def
        mock_v2_Client_def mock_reply_def NewPurgeRequest_def ev deref_def v2_assertError_def
        v2_PurgeResponse_zero_def v2_Response_zero_def mock_world_def emit_def)
  have now: "now (snd (snd ?ok)) = 1700000000000000000"
    by (simp add: v2_Purge_def v2_newHTTPRequest_def v2_do_def Let_def mock_v2_ext_def
        mock_v2_Client_def mock_reply_def NewPurgeRequest_def ev deref_def v2_assertError_def
        v2_PurgeResponse_zero_def v2_Response_zero_def mock_world_def emit_def)
  have a1: "ETA v2_PurgeResponse_zero = Time_zero"
    using E1 [of v2_PurgeResponse_zero]
    by (simp add: v2_PurgeResponse_zero_def Time_IsZero_def Time_zero_def)
  have a2: "ETA (v2_PurgeResponse_zero\<lparr>v2_PurgeResponse.EstimatedSeconds := 300,
                                 Time := 1700000000000000000\<rparr>) = 1700000300000000000"
    using E2 [of "v2_PurgeResponse_zero\<lparr>v2_PurgeResponse.EstimatedSeconds := 300,
                                 Time := 1700000000000000000\<rparr>"]
    by (simp add: Time_IsZero_def)
  have t: "Time ?v = 1700000000000000000"
    using E3 [OF ok] now by simp
  have e: "ETA ?v = 1700000300000000000"
    using E2 [of ?v] by (simp add: Time_IsZero_def)
  have a3: "\<exists>v. fst ?ok = Return (Some v, None) \<and> Time v = 1700000000000000000
      \<and> ETA v = 1700000300000000000"
    using arg_cong [OF ok, of fst] t e by (intro exI [of _ ?v]) simp
  have a4: "fst ?bad
       = Return (None, Some (ErrResponse (v2_Response_zero\<lparr>v2_Response.StatusCode := 400\<rparr>)))"
    using E4 [OF bad] arg_cong [OF bad, of fst] by simp
  show ?thesis
    using a1 a2 a3 a4 by (simp only: simp_thms)
qed

text \<open>
  C10. Whenever one of the four public operations returns, a non-nil error comes with a nil
  response and a non-nil response with a nil error. This holds for v3 \<^verbatim>\<open>Purge\<close> also
  when the decoder fails: there \<^verbatim>\<open>do\<close> returns the HTTP response together with the
  decode error, and \<^verbatim>\<open>Purge\<close> returns the error alone.
\<close>

theorem response_and_error_exclusive:
  "(v2_GetQueueLength ext c ctx w = (Return (rq, eq), wq)
      \<longrightarrow> (eq \<noteq> None \<longrightarrow> rq = None) \<and> (rq \<noteq> None \<longrightarrow> eq = None))
   \<and> (v2_Purge ext c req ctx w = (Return (rp, ep), req', wp)
      \<longrightarrow> (ep \<noteq> None \<longrightarrow> rp = None) \<and> (rp \<noteq> None \<longrightarrow> ep = None))
   \<and> (v2_GetPurgeStatus ext c purgeID ctx w = (Return (rs, es), ws)
      \<longrightarrow> (es \<noteq> None \<longrightarrow> rs = None) \<and> (rs \<noteq> None \<longrightarrow> es = None))
   \<and> (v3_Purge ext3 c3 req3 ctx w = ((r3, e3), req3', c3', w3)
      \<longrightarrow> (e3 \<noteq> None \<longrightarrow> r3 = None) \<and> (r3 \<noteq> None \<longrightarrow> e3 = None))
   \<and> (v3_newHTTPRequest ext3 c3 ''POST'' (Path (with_defaults req3)) (Some (with_defaults req3)) ctx
          = (Inr h, c3')
        \<and> v3_Client.HTTPClient c3' h = Inr resp
        \<and> v3_ext.Decode_PurgeResponse ext3 (http_Response.Body resp) v3_PurgeResponse_zero = (Some e, x')
      \<longrightarrow> fst (v3_do c3' (v3_ext.Decode_PurgeResponse ext3) h (Some v3_PurgeResponse_zero) w)
             = (Some resp, Some (Errorf (''error decoding JSON response: '' @ e)))
          \<and> fst (v3_Purge ext3 c3 req3 ctx w)
             = (None, Some (Errorf (''error decoding JSON response: '' @ e))))"
proof (intro conjI impI; (elim conjE)?)
  assume a: "v2_GetQueueLength ext c ctx w = (Return (rq, eq), wq)"
  show "rq = None" if "eq \<noteq> None" using v2_GetQueueLength_exclusive [OF a] that by simp
  show "eq = None" if "rq \<noteq> None" using v2_GetQueueLength_exclusive [OF a] that by simp
next
  assume a: "v2_Purge ext c req ctx w = (Return (rp, ep), req', wp)"
  show "rp = None" if "ep \<noteq> None" using v2_Purge_exclusive [OF a] that by simp
  show "ep = None" if "rp \<noteq> None" using v2_Purge_exclusive [OF a] that by simp
next
  assume a: "v2_GetPurgeStatus ext c purgeID ctx w = (Return (rs, es), ws)"
  show "rs = None" if "es \<noteq> None" using v2_GetPurgeStatus_exclusive [OF a] that by simp
  show "es = None" if "rs \<noteq> None" using v2_GetPurgeStatus_exclusive [OF a] that by simp
next
  assume a: "v3_Purge ext3 c3 req3 ctx w = ((r3, e3), req3', c3', w3)"
  show "r3 = None" if "e3 \<noteq> None" using v3_Purge_exclusive [OF a] that by simp
  show "e3 = None" if "r3 \<noteq> None" using v3_Purge_exclusive [OF a] that by simp
next
  assume a: "v3_newHTTPRequest ext3 c3 ''POST'' (Path (with_defaults req3)) (Some (with_defaults req3)) ctx
          = (Inr h, c3')"
    and b: "v3_Client.HTTPClient c3' h = Inr resp"
    and d: "v3_ext.Decode_PurgeResponse ext3 (http_Response.Body resp) v3_PurgeResponse_zero = (Some e, x')"
  show "fst (v3_do c3' (v3_ext.Decode_PurgeResponse ext3) h (Some v3_PurgeResponse_zero) w)
             = (Some resp, Some (Errorf (''error decoding JSON response: '' @ e)))"
    using b d by (simp add: v3_do_decode_fails)
  show "fst (v3_Purge ext3 c3 req3 ctx w)
             = (None, Some (Errorf (''error decoding JSON response: '' @ e)))"
    by (rule v3_Purge_decode_fails [OF a b d])
qed

theorem response_and_error_exclusive_witness:
  "fst (v2_GetQueueLength mock_v2_ext (mock_v2_Client (mock_reply 200 ''200'')) (Some 0) mock_world)
     = Return (Some (v2_QueueLengthResponse_zero\<lparr>v2_QueueLengthResponse.Response :=
                       v2_Response_zero\<lparr>v2_Response.StatusCode := 200\<rparr>, QueueLength := 42\<rparr>), None)
   \<and> fst (v2_Purge mock_v2_ext (mock_v2_Client (mock_reply 200 ''<html>'')) (NewPurgeRequest [''a''])
            (Some 0) mock_world)
     = Return (None, Some (Errorf ''error decoding JSON response: invalid character''))
   \<and> fst (v2_GetPurgeStatus mock_v2_ext (mock_v2_Client (Inl ''timeout'')) ''abc'' (Some 0) mock_world)
     = Return (None, Some (Errorf ''error sending HTTP request: timeout''))
   \<and> fst (v3_Purge mock_v3_ext (mock_v3_Client (mock_reply 400 ''400''))
            \<lparr>Type = ''url'', Action = [], Network = [], Hostname = ''h'', Objects = [''/x'']\<rparr>
            None mock_world)
     = (None, Some (ErrResponse (v3_Response_zero\<lparr>v3_Response.StatusCode := 400\<rparr>)))
   \<and> fst (v3_Purge mock_v3_ext (mock_v3_Client (mock_reply 200 ''<html>''))
            \<lparr>Type = ''url'', Action = [], Network = [], Hostname = ''h'', Objects = [''/x'']\<rparr>
            None mock_world)
     = (None, Some (Errorf ''error decoding JSON response: invalid character''))"
proof -
  note X = response_and_error_exclusive
  note Xq = X [THEN conjunct1, rule_format]
  note Xp = X [THEN conjunct2, THEN conjunct1, rule_format]
  note Xs = X [THEN conjunct2, THEN conjunct2, THEN conjunct1, rule_format]
  note X3 = X [THEN conjunct2, THEN conjunct2, THEN conjunct2, THEN conjunct1, rule_format]
  note Xd = X [THEN conjunct2, THEN conjunct2, THEN conjunct2, THEN conjunct2, rule_format]
  let ?q = "v2_GetQueueLength mock_v2_ext (mock_v2_Client (mock_reply 200 ''200'')) (Some 0) mock_world"
  let ?p = "v2_Purge mock_v2_ext (mock_v2_Client (mock_reply 200 ''<html>'')) (NewPurgeRequest [''a''])
            (Some 0) mock_world"
  let ?s = "v2_GetPurgeStatus mock_v2_ext (mock_v2_Client (Inl ''timeout'')) ''abc'' (Some 0) mock_world"
  let ?r3 = "\<lparr>Type = ''url'', Action = [], Network = [], Hostname = ''h'', Objects = [''/x'']\<rparr>"
  let ?a = "v3_Purge mock_v3_ext (mock_v3_Client (mock_reply 400 ''400'')) ?r3 None mock_world"
  let ?b = "v3_Purge mock_v3_ext (mock_v3_Client (mock_reply 200 ''<html>'')) ?r3 None mock_world"
  have st: "mock_status ''200'' = Some 200" "mock_status ''400'' = Some 400"
    "mock_status ''<html>'' = None"
    by (simp_all add: mock_status_def)
  have q: "\<exists>r w'. ?q = (Return (Some r, None), w')
      \<and> r = v2_QueueLengthResponse_zero\<lparr>v2_QueueLengthResponse.Response :=
                       v2_Response_zero\<lparr>v2_Response.StatusCode := 200\<rparr>, QueueLength := 42\<rparr>"
    by (simp add: v2_GetQueueLength_def v2_newHTTPRequest_def v2_do_def Let_def mock_v2_ext_def
        mock_v2_Client_def mock_reply_def st deref_def v2_assertError_def
        v2_QueueLengthResponse_zero_def v2_Response_zero_def)
  have p: "\<exists>e req' w'. ?p = (Return (None, Some e), req', w')
      \<and> e = Errorf ''error decoding JSON response: invalid character''"
    by (simp add: v2_Purge_def v2_newHTTPRequest_def v2_do_def Let_def mock_v2_ext_def
        mock_v2_Client_def mock_reply_def st NewPurgeRequest_def)
  have s: "\<exists>e w'. ?s = (Return (None, Some e), w')
      \<and> e = Errorf ''error sending HTTP request: timeout''"
    by (simp add: v2_GetPurgeStatus_def v2_newHTTPRequest_def v2_do_def Let_def mock_v2_ext_def
        mock_v2_Client_def)
  have a: "\<exists>e req' c' w'. ?a = ((None, Some e), req', c', w')
      \<and> e = ErrResponse (v3_Response_zero\<lparr>v3_Response.StatusCode := 400\<rparr>)"
    by (simp add: v3_Purge_def v3_newHTTPRequest_def config_def v3_do_def Let_def mock_v3_ext_def
        mock_v3_Client_def mock_reply_def st deref_def v3_assertError_def
        v3_PurgeResponse_zero_def v3_Response_zero_def)
  obtain h where h: "v3_newHTTPRequest mock_v3_ext (mock_v3_Client (mock_reply 200 ''<html>''))
      ''POST'' (Path (with_defaults ?r3)) (Some (with_defaults ?r3)) None =
      (Inr h, (mock_v3_Client (mock_reply 200 ''<html>''))\<lparr>Config := Some (EdgegridConfig ''akab-host'')\<rparr>)"
    using mock_v3_request by blast
  have a1: "fst ?q = Return (Some (v2_QueueLengthResponse_zero\<lparr>v2_QueueLengthResponse.Response :=
                       v2_Response_zero\<lparr>v2_Response.StatusCode := 200\<rparr>, QueueLength := 42\<rparr>), None)"
    using q Xq [where ext = mock_v2_ext and c = "mock_v2_Client (mock_reply 200 ''200'')"
        and ctx = "Some 0" and w = mock_world] by auto
  have a2: "fst ?p = Return (None, Some (Errorf ''error decoding JSON response: invalid character''))"
    using p Xp [where ext = mock_v2_ext and c = "mock_v2_Client (mock_reply 200 ''<html>'')"
        and ctx = "Some 0" and w = mock_world and req = "NewPurgeRequest [''a'']"] by auto
  have a3: "fst ?s = Return (None, Some (Errorf ''error sending HTTP request: timeout''))"
    using s Xs [where ext = mock_v2_ext and c = "mock_v2_Client (Inl ''timeout'')"
        and ctx = "Some 0" and w = mock_world and purgeID = "''abc''"] by auto
  have a4: "fst ?a = (None, Some (ErrResponse (v3_Response_zero\<lparr>v3_Response.StatusCode := 400\<rparr>)))"
    using a X3 [where ?ext3.0 = mock_v3_ext and ?c3.0 = "mock_v3_Client (mock_reply 400 ''400'')"
        and ctx = None and w = mock_world and ?req3.0 = ?r3] by auto
  have a5: "fst ?b = (None, Some (Errorf ''error decoding JSON response: invalid character''))"
    using Xd [where ?ext3.0 = mock_v3_ext and ?c3.0 = "mock_v3_Client (mock_reply 200 ''<html>'')"
        and ctx = None and w = mock_world and ?req3.0 = ?r3 and h = h
        and ?c3' = "(mock_v3_Client (mock_reply 200 ''<html>''))\<lparr>Config := Some (EdgegridConfig ''akab-host'')\<rparr>"
        and resp = "\<lparr>http_Response.StatusCode = 200, Body = ''<html>''\<rparr>"
        and e = "''invalid character''" and x' = v3_PurgeResponse_zero] h
    by (simp add: mock_v3_transport mock_v3_ext_def st)
  show ?thesis
    using a1 a2 a3 a4 a5 by (simp only: simp_thms)
qed

text \<open>
  C2, as the code has it. v2 \<^verbatim>\<open>Purge\<close> applies no defaults. When the request encodes
  and the HTTP request can be built, exactly one request is sent: a POST to the queue's URL
  whose body is the encoding of the request as the caller gave it, unset classification
  fields included. The request is never written. The defaults type \<open>arl\<close>, action
  \<open>remove\<close> and domain \<open>production\<close> are those of the constructor
  \<^verbatim>\<open>NewPurgeRequest\<close>.
\<close>

theorem v2_Purge_sends_request_as_given:
  "(json_Encode ext req = Inr b
      \<and> http_NewRequest ext ''POST''
           (apiURL @ ''/ccu/v2/queues/'' @ (if Queue req = [] then ''default'' else Queue req))
           (Some b) = None
      \<longrightarrow> sent (trace (snd (snd (v2_Purge ext c req (Some x) w)))) = sent (trace w) @
            [\<lparr>Method = ''POST'',
              URL = apiURL @ ''/ccu/v2/queues/'' @ (if Queue req = [] then ''default'' else Queue req),
              Header = [''Content-Type'' \<mapsto> ''application/json'',
                        ''Authorization'' \<mapsto> ''Basic '' @ base64 ext (Username c @ '':'' @ Password c)],
              http_Request.Body = Some b, Ctx = Some x\<rparr>])
   \<and> fst (snd (v2_Purge ext c req ctx w)) = req
   \<and> NewPurgeRequest objects =
       \<lparr>Queue = [], Type = ''arl'', Action = ''remove'', Domain = ''production'', Objects = objects\<rparr>"
proof (intro conjI impI; (elim conjE)?)
  assume e: "json_Encode ext req = Inr b"
    and n: "http_NewRequest ext ''POST''
           (apiURL @ ''/ccu/v2/queues/'' @ (if Queue req = [] then ''default'' else Queue req))
           (Some b) = None"
  let ?u = "apiURL @ ''/ccu/v2/queues/'' @ (if Queue req = [] then ''default'' else Queue req)"
  let ?h = "\<lparr>Method = ''POST'', URL = ?u,
              Header = [''Content-Type'' \<mapsto> ''application/json'',
                        ''Authorization'' \<mapsto> ''Basic '' @ base64 ext (Username c @ '':'' @ Password c)],
              http_Request.Body = Some b, Ctx = Some x\<rparr>"
  have "v2_newHTTPRequest ext c ''POST'' ?u (Some req) (Some x) = Return (Inr ?h)"
    using e n by (simp add: v2_newHTTPRequest_def Let_def)
  from v2_Purge_world [OF this]
  show "sent (trace (snd (snd (v2_Purge ext c req (Some x) w)))) = sent (trace w) @ [?h]"
    by (simp add: v2_do_sent)
next
  show "fst (snd (v2_Purge ext c req ctx w)) = req"
    by (rule v2_Purge_request_unchanged)
  show "NewPurgeRequest objects =
       \<lparr>Queue = [], Type = ''arl'', Action = ''remove'', Domain = ''production'', Objects = objects\<rparr>"
    by (simp add: NewPurgeRequest_def)
qed

text \<open>
  A request with the three classification fields unset is sent with them unset, and is
  still unset after the call; the encoding of the request with the defaults filled in is a
  different body.
\<close>

theorem v2_Purge_no_defaults_counterexample:
  "map http_Request.Body (sent (trace (snd (snd
      (v2_Purge mock_v2_ext (mock_v2_Client (mock_reply 201 ''201''))
         \<lparr>Queue = [], Type = [], Action = [], Domain = [], Objects = [''123456'']\<rparr>
         (Some 0) mock_world)))))
     = [Some ''///123456'']
   \<and> json_Encode mock_v2_ext
        \<lparr>Queue = [], Type = ''arl'', Action = ''remove'', Domain = ''production'',
         Objects = [''123456'']\<rparr>
     = Inr ''arl/remove/production/123456''
   \<and> fst (snd (v2_Purge mock_v2_ext (mock_v2_Client (mock_reply 201 ''201''))
         \<lparr>Queue = [], Type = [], Action = [], Domain = [], Objects = [''123456'']\<rparr>
         (Some 0) mock_world))
     = \<lparr>Queue = [], Type = [], Action = [], Domain = [], Objects = [''123456'']\<rparr>"
proof -
  have st: "mock_status ''201'' = Some 201"
    by (simp add: mock_status_def)
  show ?thesis
    by (simp add: v2_Purge_def v2_newHTTPRequest_def v2_do_def Let_def mock_v2_ext_def
        mock_v2_Client_def mock_reply_def st deref_def v2_assertError_def
        v2_PurgeResponse_zero_def v2_Response_zero_def mock_world_def emit_def)
qed

theorem v2_Purge_sends_request_as_given_witness:
  "map http_Request.Body (sent (trace (snd (snd
      (v2_Purge mock_v2_ext (mock_v2_Client (mock_reply 201 ''201''))
         \<lparr>Queue = [], Type = ''cpcode'', Action = [], Domain = [], Objects = [''123456'']\<rparr>
         (Some 0) mock_world)))))
     = [Some ''cpcode///123456'']
   \<and> map URL (sent (trace (snd (snd
      (v2_Purge mock_v2_ext (mock_v2_Client (mock_reply 201 ''201''))
         \<lparr>Queue = [], Type = ''cpcode'', Action = [], Domain = [], Objects = [''123456'']\<rparr>
         (Some 0) mock_world)))))
     = [''https://api.ccu.akamai.com/ccu/v2/queues/default'']"
proof -
  let ?req = "\<lparr>Queue = [], Type = ''cpcode'', Action = [], Domain = [], Objects = [''123456'']\<rparr>"
  note S = v2_Purge_sends_request_as_given [THEN conjunct1, rule_format]
  have e: "json_Encode mock_v2_ext ?req = Inr ''cpcode///123456''"
    by (simp add: mock_v2_ext_def)
  have n: "http_NewRequest mock_v2_ext ''POST''
      (apiURL @ ''/ccu/v2/queues/'' @ (if Queue ?req = [] then ''default'' else Queue ?req))
      (Some ''cpcode///123456'') = None"
    by (simp add: mock_v2_ext_def)
  show ?thesis
    using S [OF conjI [OF e n], of "mock_v2_Client (mock_reply 201 ''201'')" 0 mock_world]
    by (simp add: mock_world_def apiURL_def)
qed

text \<open>
  C3, as the code has it. v2 \<^verbatim>\<open>Purge\<close> leaves the caller's request as it was. v3
  \<^verbatim>\<open>Purge\<close> writes \<open>invalidate\<close>, \<open>production\<close> and \<open>url\<close> into those of
  \<^verbatim>\<open>Action\<close>, \<^verbatim>\<open>Network\<close> and \<^verbatim>\<open>Type\<close> that are empty, and leaves the
  other fields, and a request with all three set, as they were.
\<close>

theorem Purge_request_after_call:
  "fst (snd (v2_Purge ext c req ctx w)) = req
   \<and> fst (snd (v3_Purge ext3 c3 req3 ctx w)) =
       req3\<lparr>v3_PurgeRequest.Action :=
              (if v3_PurgeRequest.Action req3 = [] then ''invalidate'' else v3_PurgeRequest.Action req3),
            Network := (if Network req3 = [] then ''production'' else Network req3),
            v3_PurgeRequest.Type :=
              (if v3_PurgeRequest.Type req3 = [] then ''url'' else v3_PurgeRequest.Type req3)\<rparr>
   \<and> Hostname (fst (snd (v3_Purge ext3 c3 req3 ctx w))) = Hostname req3
   \<and> v3_PurgeRequest.Objects (fst (snd (v3_Purge ext3 c3 req3 ctx w))) = v3_PurgeRequest.Objects req3
   \<and> (v3_PurgeRequest.Action req3 \<noteq> [] \<and> Network req3 \<noteq> [] \<and> v3_PurgeRequest.Type req3 \<noteq> []
        \<longrightarrow> fst (snd (v3_Purge ext3 c3 req3 ctx w)) = req3)"
  by (simp add: v2_Purge_request_unchanged v3_Purge_request with_defaults_fields)

text \<open>
  After v3 \<^verbatim>\<open>Purge\<close> a request given with only \<^verbatim>\<open>Type\<close> set has its
  \<^verbatim>\<open>Action\<close> and \<^verbatim>\<open>Network\<close> filled in.
\<close>

theorem v3_Purge_mutates_request_counterexample:
  "fst (snd (v3_Purge mock_v3_ext (mock_v3_Client (mock_reply 201 ''201''))
       \<lparr>Type = ''cpcode'', Action = [], Network = [], Hostname = [], Objects = [''123456'']\<rparr>
       None mock_world))
     = \<lparr>Type = ''cpcode'', Action = ''invalidate'', Network = ''production'', Hostname = [],
        Objects = [''123456'']\<rparr>
   \<and> fst (snd (v3_Purge mock_v3_ext (mock_v3_Client (mock_reply 201 ''201''))
       \<lparr>Type = ''cpcode'', Action = [], Network = [], Hostname = [], Objects = [''123456'']\<rparr>
       None mock_world))
     \<noteq> \<lparr>Type = ''cpcode'', Action = [], Network = [], Hostname = [], Objects = [''123456'']\<rparr>"
  by (simp add: v3_Purge_request with_defaults_fields)

theorem Purge_request_after_call_witness:
  "fst (snd (v2_Purge mock_v2_ext (mock_v2_Client (mock_reply 201 ''201''))
       \<lparr>Queue = [], Type = ''cpcode'', Action = [], Domain = [], Objects = [''123456'']\<rparr>
       (Some 0) mock_world))
     = \<lparr>Queue = [], Type = ''cpcode'', Action = [], Domain = [], Objects = [''123456'']\<rparr>
   \<and> fst (snd (v3_Purge mock_v3_ext (mock_v3_Client (mock_reply 201 ''201''))
       \<lparr>Type = ''tag'', Action = ''delete'', Network = ''staging'', Hostname = [], Objects = [''t'']\<rparr>
       (Some 0) mock_world))
     = \<lparr>Type = ''tag'', Action = ''delete'', Network = ''staging'', Hostname = [], Objects = [''t'']\<rparr>
   \<and> fst (snd (v3_Purge mock_v3_ext (mock_v3_Client (mock_reply 201 ''201''))
       \<lparr>Type = [], Action = [], Network = ''staging'', Hostname = ''h'', Objects = [''/x'']\<rparr>
       None mock_world))
     = \<lparr>Type = ''url'', Action = ''invalidate'', Network = ''staging'', Hostname = ''h'',
        Objects = [''/x'']\<rparr>"
  using
    Purge_request_after_call [of mock_v2_ext "mock_v2_Client (mock_reply 201 ''201'')"
      "\<lparr>Queue = [], Type = ''cpcode'', Action = [], Domain = [], Objects = [''123456'']\<rparr>"
      "Some 0" mock_world mock_v3_ext "mock_v3_Client (mock_reply 201 ''201'')"
      "\<lparr>Type = ''tag'', Action = ''delete'', Network = ''staging'', Hostname = [], Objects = [''t'']\<rparr>"]
    Purge_request_after_call [THEN conjunct2, THEN conjunct1,
      of mock_v3_ext "mock_v3_Client (mock_reply 201 ''201'')"
      "\<lparr>Type = [], Action = [], Network = ''staging'', Hostname = ''h'', Objects = [''/x'']\<rparr>"
      None mock_world]
  by simp

text \<open>
  C4. v3 \<^verbatim>\<open>Purge\<close> hands the request builder the method \<open>POST\<close> and the path
  \<open>/ccu/v3/\<close>, action, \<open>/\<close>, type, \<open>/\<close>, network, where an empty field stands for
  its default (\<open>invalidate\<close>, \<open>url\<close>, \<open>production\<close>) and a set field for itself;
  when the configuration loads and the builder succeeds, the request it built, signed and
  bound to the context, is the one request sent. With type \<open>url\<close>, action
  \<open>invalidate\<close> and network \<open>production\<close> the path is
  \<open>/ccu/v3/invalidate/url/production\<close>; with type \<open>cpcode\<close> and the other two unset
  it is \<open>/ccu/v3/invalidate/cpcode/production\<close>.
\<close>

theorem v3_Purge_path:
  "(A = (if v3_PurgeRequest.Action req = [] then ''invalidate'' else v3_PurgeRequest.Action req)
      \<and> T = (if v3_PurgeRequest.Type req = [] then ''url'' else v3_PurgeRequest.Type req)
      \<and> N = (if Network req = [] then ''production'' else Network req)
      \<and> config ext c = (Inr cfg, c')
      \<and> client_NewJSONRequest ext cfg ''POST'' (''/ccu/v3/'' @ A @ ''/'' @ T @ ''/'' @ N)
           (Some (req\<lparr>v3_PurgeRequest.Action := A, Network := N, v3_PurgeRequest.Type := T\<rparr>)) = Inr h0
      \<longrightarrow> sent (trace (snd (snd (snd (v3_Purge ext c req ctx w))))) = sent (trace w) @
            [case ctx of None \<Rightarrow> edgegrid_AddRequestHeader ext cfg h0
             | Some x \<Rightarrow> (edgegrid_AddRequestHeader ext cfg h0)\<lparr>Ctx := Some x\<rparr>])
   \<and> Path (fst (snd (v3_Purge ext c req ctx w))) =
       ''/ccu/v3/'' @ (if v3_PurgeRequest.Action req = [] then ''invalidate'' else v3_PurgeRequest.Action req)
         @ ''/'' @ (if v3_PurgeRequest.Type req = [] then ''url'' else v3_PurgeRequest.Type req)
         @ ''/'' @ (if Network req = [] then ''production'' else Network req)
   \<and> Path \<lparr>Type = ''url'', Action = ''invalidate'', Network = ''production'', Hostname = hn,
            Objects = os\<rparr> = ''/ccu/v3/invalidate/url/production''
   \<and> Path (fst (snd (v3_Purge ext c
        \<lparr>Type = ''cpcode'', Action = [], Network = [], Hostname = hn, Objects = os\<rparr> ctx w)))
       = ''/ccu/v3/invalidate/cpcode/production''"
proof (intro conjI impI; (elim conjE)?)
  assume A: "A = (if v3_PurgeRequest.Action req = [] then ''invalidate'' else v3_PurgeRequest.Action req)"
    and T: "T = (if v3_PurgeRequest.Type req = [] then ''url'' else v3_PurgeRequest.Type req)"
    and N: "N = (if Network req = [] then ''production'' else Network req)"
    and cfg: "config ext c = (Inr cfg, c')"
    and new: "client_NewJSONRequest ext cfg ''POST'' (''/ccu/v3/'' @ A @ ''/'' @ T @ ''/'' @ N)
           (Some (req\<lparr>v3_PurgeRequest.Action := A, Network := N, v3_PurgeRequest.Type := T\<rparr>)) = Inr h0"
  let ?h = "case ctx of None \<Rightarrow> edgegrid_AddRequestHeader ext cfg h0
             | Some x \<Rightarrow> (edgegrid_AddRequestHeader ext cfg h0)\<lparr>Ctx := Some x\<rparr>"
  have p: "Path (with_defaults req) = ''/ccu/v3/'' @ A @ ''/'' @ T @ ''/'' @ N"
    by (simp only: Path_with_defaults A T N)
  have r: "with_defaults req = req\<lparr>v3_PurgeRequest.Action := A, Network := N, v3_PurgeRequest.Type := T\<rparr>"
    by (simp only: with_defaults_fields A T N)
  have "v3_newHTTPRequest ext c ''POST'' (Path (with_defaults req)) (Some (with_defaults req)) ctx
      = (Inr ?h, c')"
    unfolding p unfolding r using cfg new by (simp add: v3_newHTTPRequest_def Let_def)
  from v3_Purge_world [OF this]
  show "sent (trace (snd (snd (snd (v3_Purge ext c req ctx w))))) = sent (trace w) @ [?h]"
    by (simp add: v3_do_sent)
next
  show "Path (fst (snd (v3_Purge ext c req ctx w))) =
       ''/ccu/v3/'' @ (if v3_PurgeRequest.Action req = [] then ''invalidate'' else v3_PurgeRequest.Action req)
         @ ''/'' @ (if v3_PurgeRequest.Type req = [] then ''url'' else v3_PurgeRequest.Type req)
         @ ''/'' @ (if Network req = [] then ''production'' else Network req)"
    by (simp only: v3_Purge_request Path_with_defaults)
  show "Path \<lparr>Type = ''url'', Action = ''invalidate'', Network = ''production'', Hostname = hn,
            Objects = os\<rparr> = ''/ccu/v3/invalidate/url/production''"
    by (simp add: Path_def)
  show "Path (fst (snd (v3_Purge ext c
        \<lparr>Type = ''cpcode'', Action = [], Network = [], Hostname = hn, Objects = os\<rparr> ctx w)))
       = ''/ccu/v3/invalidate/cpcode/production''"
    by (simp add: v3_Purge_request Path_with_defaults)
qed

theorem v3_Purge_path_witness:
  "map Method (sent (trace (snd (snd (snd
      (v3_Purge mock_v3_ext (mock_v3_Client (mock_reply 201 ''201''))
         \<lparr>Type = ''cpcode'', Action = [], Network = [], Hostname = [], Objects = [''123456'']\<rparr>
         (Some 0) mock_world))))))
     = [''POST'']
   \<and> map URL (sent (trace (snd (snd (snd
      (v3_Purge mock_v3_ext (mock_v3_Client (mock_reply 201 ''201''))
         \<lparr>Type = ''cpcode'', Action = [], Network = [], Hostname = [], Objects = [''123456'']\<rparr>
         (Some 0) mock_world))))))
     = [''https://akab-host/ccu/v3/invalidate/cpcode/production'']
   \<and> map URL (sent (trace (snd (snd (snd
      (v3_Purge mock_v3_ext (mock_v3_Client (mock_reply 201 ''201''))
         \<lparr>Type = ''tag'', Action = ''delete'', Network = ''staging'', Hostname = [], Objects = [''t'']\<rparr>
         None mock_world))))))
     = [''https://akab-host/ccu/v3/delete/tag/staging'']"
proof -
  note P = v3_Purge_path [THEN conjunct1, rule_format]
  let ?c = "mock_v3_Client (mock_reply 201 ''201'')"
  let ?r1 = "\<lparr>Type = ''cpcode'', Action = [], Network = [], Hostname = [], Objects = [''123456'']\<rparr>"
  let ?r2 = "\<lparr>Type = ''tag'', Action = ''delete'', Network = ''staging'', Hostname = [], Objects = [''t'']\<rparr>"
  have cfg: "config mock_v3_ext ?c =
      (Inr (EdgegridConfig ''akab-host''), ?c\<lparr>Config := Some (EdgegridConfig ''akab-host'')\<rparr>)"
    by (simp add: config_def mock_v3_ext_def mock_v3_Client_def)
  have new: "client_NewJSONRequest mock_v3_ext (EdgegridConfig ''akab-host'') m p v =
      Inr \<lparr>Method = m, URL = ''https://akab-host'' @ p, Header = Map.empty,
           http_Request.Body = map_option (\<lambda>r. Hostname r @ ''/'' @ concat (v3_PurgeRequest.Objects r)) v,
           Ctx = None\<rparr>" for m p v
    by (simp add: mock_v3_ext_def)
  have hdr: "edgegrid_AddRequestHeader mock_v3_ext cfg h = h" for cfg h
    by (simp add: mock_v3_ext_def)
  have a1: "sent (trace (snd (snd (snd (v3_Purge mock_v3_ext ?c ?r1 (Some 0) mock_world))))) =
      [\<lparr>Method = ''POST'', URL = ''https://akab-host/ccu/v3/invalidate/cpcode/production'',
        Header = Map.empty, http_Request.Body = Some ''/123456'', Ctx = Some 0\<rparr>]"
    using P [where ext = mock_v3_ext and c = ?c and req = ?r1 and ctx = "Some 0" and w = mock_world
        and A = "''invalidate''" and T = "''cpcode''" and N = "''production''"
        and cfg = "EdgegridConfig ''akab-host''"
        and c' = "?c\<lparr>Config := Some (EdgegridConfig ''akab-host'')\<rparr>"
        and ?h0.0 = "\<lparr>Method = ''POST'', URL = ''https://akab-host/ccu/v3/invalidate/cpcode/production'',
           Header = Map.empty, http_Request.Body = Some ''/123456'', Ctx = None\<rparr>"]
    by (simp add: cfg new hdr mock_world_def)
  have a2: "sent (trace (snd (snd (snd (v3_Purge mock_v3_ext ?c ?r2 None mock_world))))) =
      [\<lparr>Method = ''POST'', URL = ''https://akab-host/ccu/v3/delete/tag/staging'',
        Header = Map.empty, http_Request.Body = Some ''/t'', Ctx = None\<rparr>]"
    using P [where ext = mock_v3_ext and c = ?c and req = ?r2 and ctx = None and w = mock_world
        and A = "''delete''" and T = "''tag''" and N = "''staging''"
        and cfg = "EdgegridConfig ''akab-host''"
        and c' = "?c\<lparr>Config := Some (EdgegridConfig ''akab-host'')\<rparr>"
        and ?h0.0 = "\<lparr>Method = ''POST'', URL = ''https://akab-host/ccu/v3/delete/tag/staging'',
           Header = Map.empty, http_Request.Body = Some ''/t'', Ctx = None\<rparr>"]
    by (simp add: cfg new hdr mock_world_def)
  show ?thesis
    by (simp add: a1 a2)
qed

end
